theory Spec2Isabelle
  imports Main "HOL-Library.Sublist"
begin

section \<open>TalentScout hiring assistant: the two chat controllers\<close>

text \<open>
  The repository holds two Streamlit scripts, \<^verbatim>\<open>app.py\<close> (OpenAI collaborator) and
  \<^verbatim>\<open>app_grok.py\<close> (Groq collaborator, duplicate guard, namespaced output directory).
  Both are embedded here: the session state as a record, every helper of the scripts as
  a function on that record, and one run of the script (Streamlit executes the whole
  script on each interaction) as a function of the event that caused it.

  Everything the scripts read from outside (environment variable, secrets store, the
  reply of the text-generation service, the clock, the outcome of the file write) is a
  field of the record \<open>world\<close>, given anew for each run of the script.
\<close>

subsection \<open>Python strings\<close>

text \<open>
  A Python \<^verbatim>\<open>str\<close> is modelled as a \<^typ>\<open>string\<close> whose characters stand for the code
  points below 256. On these, \<^verbatim>\<open>str.lower\<close> moves \<open>A..Z\<close> and the Latin-1 capitals
  (192..222 but 215) up by 32, which is setting bit 5; \<^verbatim>\<open>str.strip\<close> removes the
  characters for which \<^verbatim>\<open>str.isspace\<close> holds; \<^verbatim>\<open>\d\<close> matches \<open>0..9\<close>.
  The three emoji of the scripts' literals are written as their UTF-8 bytes.
\<close>

definition nl :: string where
  "nl = [CHR 0x0A]"

definition dq :: string where
  "dq = [CHR 0x22]"

definition warning_sign :: string where
  "warning_sign = [CHR 0xE2, CHR 0x9A, CHR 0xA0, CHR 0xEF, CHR 0xB8, CHR 0x8F]"

definition check_mark :: string where
  "check_mark = [CHR 0xE2, CHR 0x9C, CHR 0x85]"

definition is_upper :: "char \<Rightarrow> bool" where
  "is_upper c = (let n = (of_char c :: nat) in
     (65 \<le> n \<and> n \<le> 90) \<or> (192 \<le> n \<and> n \<le> 222 \<and> n \<noteq> 215))"

fun set_bit5 :: "char \<Rightarrow> char" where
  "set_bit5 (Char b0 b1 b2 b3 b4 b5 b6 b7) = Char b0 b1 b2 b3 b4 True b6 b7"

definition lower_char :: "char \<Rightarrow> char" where
  "lower_char c = (if is_upper c then set_bit5 c else c)"

definition str_lower :: "string \<Rightarrow> string" where
  "str_lower s = map lower_char s"

definition is_space :: "char \<Rightarrow> bool" where
  "is_space c = (let n = (of_char c :: nat) in
     (9 \<le> n \<and> n \<le> 13) \<or> (28 \<le> n \<and> n \<le> 32) \<or> n = 133 \<or> n = 160)"

definition str_strip :: "string \<Rightarrow> string" where
  "str_strip s = rev (dropWhile is_space (rev (dropWhile is_space s)))"

definition is_digit :: "char \<Rightarrow> bool" where
  "is_digit c = (let n = (of_char c :: nat) in 48 \<le> n \<and> n \<le> 57)"

text \<open>\<^verbatim>\<open>re.findall(r'\d+', s)\<close>: the maximal runs of digits, from left to right. The
  first argument is the run being read.\<close>

fun digit_runs :: "string \<Rightarrow> string \<Rightarrow> string list" where
  "digit_runs cur [] = (if cur = [] then [] else [cur])"
| "digit_runs cur (c # cs) =
     (if is_digit c then digit_runs (cur @ [c]) cs
      else if cur = [] then digit_runs [] cs
      else cur # digit_runs [] cs)"

definition findall_digits :: "string \<Rightarrow> string list" where
  "findall_digits s = digit_runs [] s"

text \<open>\<^verbatim>\<open>s.replace(" ", "_")\<close>.\<close>

definition replace_spaces :: "string \<Rightarrow> string" where
  "replace_spaces s = map (\<lambda>c. if c = CHR '' '' then CHR ''_'' else c) s"

text \<open>\<^verbatim>\<open>str(n)\<close> of a natural number, as f-strings and \<^verbatim>\<open>json\<close> print it.\<close>

definition digit_char :: "nat \<Rightarrow> char" where
  "digit_char d = ''0123456789'' ! d"

fun str_of_nat :: "nat \<Rightarrow> string" where
  "str_of_nat n = (if n < 10 then [digit_char n] else str_of_nat (n div 10) @ [digit_char (n mod 10)])"

declare str_of_nat.simps [simp del]

subsection \<open>Data model\<close>

datatype field = Name | Email | Phone | Experience | Position | Location | Tech_stack

text \<open>The dictionary key of a field, as the scripts spell it.\<close>

fun field_key :: "field \<Rightarrow> string" where
  "field_key Name = ''name''"
| "field_key Email = ''email''"
| "field_key Phone = ''phone''"
| "field_key Experience = ''experience''"
| "field_key Position = ''position''"
| "field_key Location = ''location''"
| "field_key Tech_stack = ''tech_stack''"

definition FIELD_ORDER :: "field list" where
  "FIELD_ORDER = [Name, Email, Phone, Experience, Position, Location, Tech_stack]"

fun FIELD_PROMPTS :: "field \<Rightarrow> string" where
  "FIELD_PROMPTS Name = ''full name''"
| "FIELD_PROMPTS Email = ''email address''"
| "FIELD_PROMPTS Phone = ''phone number''"
| "FIELD_PROMPTS Experience = ''years of experience''"
| "FIELD_PROMPTS Position = ''desired position''"
| "FIELD_PROMPTS Location = ''current location''"
| "FIELD_PROMPTS Tech_stack = ''tech stack (programming languages, frameworks, tools)''"

record technical_answer =
  question_number :: nat
  answer :: string
  timestamp :: string

text \<open>\<^verbatim>\<open>candidate_data\<close>: the seven keys hold \<^verbatim>\<open>None\<close> or a string (\<open>info\<close>), the
  eighth the list of answers.\<close>

record candidate_data =
  info :: "field \<Rightarrow> string option"
  technical_answers :: "technical_answer list"

datatype role = System | User | Assistant

text \<open>The content of a message is what the script appended: a text, or \<open>None\<close> where the
  collaborator handed back Python's \<^verbatim>\<open>None\<close>.\<close>

record message =
  role :: role
  content :: "string option"

datatype stage = Greeting | Collect_info | Technical_questions | Farewell

text \<open>What \<^verbatim>\<open>st.success\<close>, \<^verbatim>\<open>st.error\<close>, \<^verbatim>\<open>st.warning\<close> and \<^verbatim>\<open>st.info\<close> put on the
  page. A rerun draws the page anew, so the notices of a state are those of the last run
  that drew it.\<close>

datatype notice = Success string | Error string | Warning string | Info string

text \<open>
  The state both scripts keep in \<^verbatim>\<open>st.session_state\<close>, and next to it what a run
  leaves outside the session: the files written (\<open>disk\<close>, path to content), the notices
  on the page, and the calls made to the text-generation collaborator (user prompt,
  system prompt). \<open>technical_questions\<close> is \<open>None\<close> while \<^verbatim>\<open>app.py\<close> has not assigned it,
  and then holds what the collaborator returned.
\<close>

record app_state =
  messages :: "message list"
  candidate_data :: candidate_data
  stage :: stage
  tech_questions_asked :: nat
  conversation_active :: bool
  technical_questions :: "string option option"
  disk :: "string \<rightharpoonup> string"
  notices :: "notice list"
  llm_calls :: "(string \<times> string) list"

text \<open>The keys only \<^verbatim>\<open>app_grok.py\<close> keeps.\<close>

record grok_state = app_state +
  current_field_index :: nat
  greeted :: bool
  last_user_message :: "string option"

subsection \<open>The world outside\<close>

text \<open>
  \<open>secrets_get\<close> is the outcome of \<^verbatim>\<open>st.secrets.get(KEY, "")\<close>: \<open>Inl\<close> the message of the
  exception it raises when there is no secrets store, \<open>Inr None\<close> when the store has no
  such secret, \<open>Inr (Some v)\<close> the secret. \<open>getenv\<close> is the environment variable as the
  process was started with it. \<open>service\<close> gives, for a user prompt and a system prompt,
  the outcome of the first request, of the second, and so on; the content of a reply is
  a text, or \<open>None\<close> for JSON \<^verbatim>\<open>null\<close>. \<open>now_iso\<close> and \<open>now_stamp\<close> are the clock as
  \<^verbatim>\<open>isoformat()\<close> and \<^verbatim>\<open>strftime("%Y%m%d_%H%M%S")\<close> print it. \<open>makedirs_error\<close> is the
  message of the exception that \<^verbatim>\<open>os.makedirs\<close> raises, if any; \<open>open_error\<close> that of
  \<^verbatim>\<open>open(path, 'w')\<close>, which depends on the path; \<open>dump_error\<close> that of \<^verbatim>\<open>json.dump\<close>
  writing into the opened file, with the number of characters that reached the file
  before it. \<open>import_error\<close> is the message of the exception that \<^verbatim>\<open>import openai\<close>
  raises, if any.
\<close>

datatype reply = Request_exception string | Other_exception string | Reply "string option"

record world =
  secrets_get :: "string + string option"
  getenv :: "string option"
  service :: "string \<Rightarrow> string \<Rightarrow> nat \<Rightarrow> reply"
  now_iso :: string
  now_stamp :: string
  makedirs_error :: "string option"
  open_error :: "string \<Rightarrow> string option"
  dump_error :: "(string \<times> nat) option"
  import_error :: "string option"

text \<open>A request that reaches the text-generation service: the endpoint, the credential
  sent, the model, the chat (system and user message), the token limit and the timeout
  in seconds (\<^verbatim>\<open>app.py\<close> sets none). The temperature, a float, is left out.\<close>

record request =
  endpoint :: string
  credential :: string
  model :: string
  chat :: "message list"
  max_tokens :: nat
  timeout :: "nat option"

subsection \<open>The text-generation collaborator\<close>

text \<open>
  \<^verbatim>\<open>os.getenv(KEY, st.secrets.get(KEY, ""))\<close>. The default is evaluated first, so a
  missing secrets store raises before the environment is looked at; and reading the
  secrets exports each of them to the environment, so a stored secret is what
  \<^verbatim>\<open>os.getenv\<close> then finds.
\<close>

definition api_key :: "world \<Rightarrow> string + string" where
  "api_key w =
     (case secrets_get w of
        Inl e \<Rightarrow> Inl e
      | Inr (Some secret) \<Rightarrow> Inr secret
      | Inr None \<Rightarrow> Inr (case getenv w of Some v \<Rightarrow> v | None \<Rightarrow> []))"

text \<open>\<^verbatim>\<open>call_groq_api\<close> of \<^verbatim>\<open>app_grok.py\<close>: what it returns (the content of the reply is
  handed back unchecked), and the requests posted. It posts once, so only the outcome
  of the first request is read.\<close>

definition call_groq_api :: "world \<Rightarrow> string \<Rightarrow> string \<Rightarrow> string option \<times> request list" where
  "call_groq_api w prompt system_prompt =
     (case api_key w of
        Inl e \<Rightarrow> (Some (''An unexpected error occurred: '' @ e), [])
      | Inr key \<Rightarrow>
          if key = [] then
            (Some (warning_sign @ '' Add GROQ_API_KEY in environment or Streamlit secrets to enable AI responses.''), [])
          else
            (let data = \<lparr>endpoint = ''https://api.groq.com/openai/v1/chat/completions'',
                        credential = ''Bearer '' @ key,
                        model = ''llama-3.1-8b-instant'',
                        chat = [\<lparr>role = System, content = Some system_prompt\<rparr>,
                                \<lparr>role = User, content = Some prompt\<rparr>],
                        max_tokens = 500,
                        timeout = Some 30\<rparr>
             in case service w prompt system_prompt 0 of
                  Request_exception e \<Rightarrow> (Some (''Error connecting to Groq API: '' @ e), [data])
                | Other_exception e \<Rightarrow> (Some (''An unexpected error occurred: '' @ e), [data])
                | Reply result \<Rightarrow> (result, [data])))"

text \<open>\<^verbatim>\<open>call_llm\<close> of \<^verbatim>\<open>app.py\<close>: one \<^verbatim>\<open>except Exception\<close> for everything, the
  import of the client library included.\<close>

definition llm_error :: "string \<Rightarrow> string" where
  "llm_error e = ''Error calling LLM: '' @ e @ nl @ nl @ ''Please check your API configuration.''"

definition call_llm :: "world \<Rightarrow> string \<Rightarrow> string \<Rightarrow> string option \<times> request list" where
  "call_llm w prompt system_prompt =
     (case import_error w of
        Some e \<Rightarrow> (Some (llm_error e), [])
      | None \<Rightarrow>
         (case api_key w of
            Inl e \<Rightarrow> (Some (llm_error e), [])
          | Inr key \<Rightarrow>
              if key = [] then
                (Some (warning_sign @ '' Please configure your API key in the .streamlit/secrets.toml file or environment variables.''), [])
              else
                (let data = \<lparr>endpoint = ''openai.ChatCompletion.create'',
                            credential = key,
                            model = ''gpt-3.5-turbo'',
                            chat = [\<lparr>role = System, content = Some system_prompt\<rparr>,
                                    \<lparr>role = User, content = Some prompt\<rparr>],
                            max_tokens = 500,
                            timeout = None\<rparr>
                 in case service w prompt system_prompt 0 of
                      Request_exception e \<Rightarrow> (Some (llm_error e), [data])
                    | Other_exception e \<Rightarrow> (Some (llm_error e), [data])
                    | Reply result \<Rightarrow> (result, [data]))))"

subsection \<open>Prompt templates\<close>

datatype template = T_greeting | T_collect_info | T_generate_questions | T_evaluate_answer | T_farewell

text \<open>\<^verbatim>\<open>SYSTEM_PROMPTS\<close> of \<^verbatim>\<open>app.py\<close>. The entry for the questions is given with its
  \<^verbatim>\<open>{num}\<close> filled in, as \<^verbatim>\<open>.format(num=5)\<close> does at its one use.\<close>

definition generate_questions_format :: "nat \<Rightarrow> string" where
  "generate_questions_format num =
     ''You are a technical interviewer. Generate '' @ str_of_nat num @ '' relevant technical '' @ nl @
     ''    questions based on the candidate's tech stack. Questions should:'' @ nl @
     ''    - Be specific to the technologies mentioned'' @ nl @
     ''    - Range from intermediate to advanced level'' @ nl @
     ''    - Test practical knowledge and problem-solving'' @ nl @
     ''    - Be clear and concise'' @ nl @
     ''    Return ONLY the questions, numbered 1-'' @ str_of_nat num @ ''.''"

fun SYSTEM_PROMPTS :: "template \<Rightarrow> string" where
  "SYSTEM_PROMPTS T_greeting =
     ''You are a friendly AI hiring assistant for TalentScout, a recruitment agency. '' @ nl @
     ''    Greet the candidate warmly and briefly explain that you'll be collecting their information '' @ nl @
     ''    and asking some technical questions. Keep it concise and professional.''"
| "SYSTEM_PROMPTS T_collect_info =
     ''You are collecting candidate information. Based on what's already collected,'' @ nl @
     ''    ask for the next missing piece of information in a natural, conversational way.'' @ nl @
     ''    Missing info will be provided in the prompt. Ask only ONE question at a time.'' @ nl @
     ''    Be professional but friendly.''"
| "SYSTEM_PROMPTS T_generate_questions = generate_questions_format 5"
| "SYSTEM_PROMPTS T_evaluate_answer =
     ''You are evaluating a technical answer. Provide brief, constructive feedback.'' @ nl @
     ''    Be encouraging but honest. Keep response under 50 words.''"
| "SYSTEM_PROMPTS T_farewell =
     ''Thank the candidate professionally for their time. Mention that the recruitment '' @ nl @
     ''    team will review their responses and get back to them within 3-5 business days. Keep it brief.''"

text \<open>\<^verbatim>\<open>SYSTEM_PROMPTS\<close> of \<^verbatim>\<open>app_grok.py\<close>.\<close>

fun SYSTEM_PROMPTS_grok :: "template \<Rightarrow> string" where
  "SYSTEM_PROMPTS_grok T_greeting =
     ''You are a friendly AI hiring assistant for TalentScout. '' @ nl @
     ''Greet the candidate warmly and explain you'll collect their information and ask technical questions. Keep it to 2-3 sentences.''"
| "SYSTEM_PROMPTS_grok T_collect_info =
     ''You are collecting candidate information. '' @ nl @
     ''Ask for the specified information naturally and briefly. One short question only. If the prompt contains 'Thank them briefly', include a short thank you before the question.''"
| "SYSTEM_PROMPTS_grok T_generate_questions =
     ''Generate 5 technical interview questions based on the tech stack.'' @ nl @
     ''Be specific to the technologies mentioned. Return ONLY numbered questions 1-5.''"
| "SYSTEM_PROMPTS_grok T_evaluate_answer =
     ''Provide brief encouraging feedback in 1-2 sentences. Under 30 words.''"
| "SYSTEM_PROMPTS_grok T_farewell =
     ''Thank the candidate professionally. Mention the team will review responses '' @ nl @
     ''and contact them in 3-5 business days. Keep brief.''"

declare SYSTEM_PROMPTS.simps [simp del] SYSTEM_PROMPTS_grok.simps [simp del]

subsection \<open>Serialisation of the record\<close>

text \<open>
  \<^verbatim>\<open>json.dump(candidate_data, f, indent=2)\<close> on the dictionary of the scripts: the keys
  in insertion order, \<^verbatim>\<open>None\<close> as \<^verbatim>\<open>null\<close>, every level indented by two more spaces,
  an empty list as \<^verbatim>\<open>[]\<close>, strings escaped as \<^verbatim>\<open>ensure_ascii\<close> does.
\<close>

definition hex_char :: "nat \<Rightarrow> char" where
  "hex_char d = ''0123456789abcdef'' ! d"

definition json_escape :: "char \<Rightarrow> string" where
  "json_escape c =
     (let n = (of_char c :: nat) in
      if n = 34 then [CHR 0x5C, CHR 0x22]
      else if n = 92 then [CHR 0x5C, CHR 0x5C]
      else if n = 10 then [CHR 0x5C, CHR ''n'']
      else if n = 13 then [CHR 0x5C, CHR ''r'']
      else if n = 9 then [CHR 0x5C, CHR ''t'']
      else if n = 8 then [CHR 0x5C, CHR ''b'']
      else if n = 12 then [CHR 0x5C, CHR ''f'']
      else if 32 \<le> n \<and> n \<le> 126 then [c]
      else [CHR 0x5C, CHR ''u'', CHR ''0'', CHR ''0'', hex_char (n div 16), hex_char (n mod 16)])"

definition json_string :: "string \<Rightarrow> string" where
  "json_string s = dq @ concat (map json_escape s) @ dq"

definition json_optional :: "string option \<Rightarrow> string" where
  "json_optional v = (case v of None \<Rightarrow> ''null'' | Some s \<Rightarrow> json_string s)"

definition json_answer :: "technical_answer \<Rightarrow> string" where
  "json_answer a =
     ''    {'' @ nl @
     ''      '' @ json_string ''question_number'' @ '': '' @ str_of_nat (question_number a) @ '','' @ nl @
     ''      '' @ json_string ''answer'' @ '': '' @ json_string (answer a) @ '','' @ nl @
     ''      '' @ json_string ''timestamp'' @ '': '' @ json_string (timestamp a) @ nl @
     ''    }''"

fun join_lines :: "string list \<Rightarrow> string" where
  "join_lines [] = []"
| "join_lines [x] = x"
| "join_lines (x # y # ys) = x @ '','' @ nl @ join_lines (y # ys)"

definition json_answers :: "technical_answer list \<Rightarrow> string" where
  "json_answers xs =
     (if xs = [] then ''[]'' else ''['' @ nl @ join_lines (map json_answer xs) @ nl @ ''  ]'')"

definition json_dump :: "candidate_data \<Rightarrow> string" where
  "json_dump d =
     ''{'' @ nl @
     concat (map (\<lambda>f. ''  '' @ json_string (field_key f) @ '': '' @ json_optional (info d f) @ '','' @ nl)
                 FIELD_ORDER) @
     ''  '' @ json_string ''technical_answers'' @ '': '' @ json_answers (technical_answers d) @ nl @
     ''}''"

subsection \<open>Helpers shared by both scripts\<close>

text \<open>\<^verbatim>\<open>st.session_state.messages.append({"role": r, "content": text})\<close>.\<close>

definition append_message :: "role \<Rightarrow> string option \<Rightarrow> 'a app_state_scheme \<Rightarrow> 'a app_state_scheme" where
  "append_message r text s = s\<lparr>messages := messages s @ [\<lparr>role = r, content = text\<rparr>]\<rparr>"

text \<open>\<^verbatim>\<open>st.session_state.candidate_data[field] = text\<close>.\<close>

definition set_info :: "field \<Rightarrow> string \<Rightarrow> 'a app_state_scheme \<Rightarrow> 'a app_state_scheme" where
  "set_info field text s =
     s\<lparr>candidate_data := (candidate_data s)\<lparr>info := (info (candidate_data s))(field := Some text)\<rparr>\<rparr>"

text \<open>\<^verbatim>\<open>st.session_state.candidate_data['technical_answers'].append(qa)\<close>.\<close>

definition append_answer :: "technical_answer \<Rightarrow> 'a app_state_scheme \<Rightarrow> 'a app_state_scheme" where
  "append_answer qa s =
     s\<lparr>candidate_data := (candidate_data s)
          \<lparr>technical_answers := technical_answers (candidate_data s) @ [qa]\<rparr>\<rparr>"

text \<open>
  \<^verbatim>\<open>with open(filename, 'w') as f: json.dump(data, f, indent=2)\<close>, where \<open>text\<close> is what
  \<^verbatim>\<open>json.dump\<close> prints: the message of the exception raised, if any, and the files after
  it. Opening creates or empties the file, so a failure of \<^verbatim>\<open>json.dump\<close> leaves the part
  already written.
\<close>

definition write_failure :: "world \<Rightarrow> string \<Rightarrow> string option" where
  "write_failure w filename =
     (case open_error w filename of
        Some e \<Rightarrow> Some e
      | None \<Rightarrow> (case dump_error w of Some (e, n) \<Rightarrow> Some e | None \<Rightarrow> None))"

definition write_file ::
  "world \<Rightarrow> string \<Rightarrow> string \<Rightarrow> (string \<rightharpoonup> string) \<Rightarrow> string option \<times> (string \<rightharpoonup> string)" where
  "write_file w filename text files =
     (case open_error w filename of
        Some e \<Rightarrow> (Some e, files)
      | None \<Rightarrow>
          (case dump_error w of
             Some (e, n) \<Rightarrow> (Some e, files(filename \<mapsto> take n text))
           | None \<Rightarrow> (None, files(filename \<mapsto> text))))"

text \<open>\<^verbatim>\<open>keyword in text\<close> for some keyword of the list: \<^verbatim>\<open>any(... for keyword in ...)\<close>.\<close>

definition any_keyword_in :: "string list \<Rightarrow> string \<Rightarrow> bool" where
  "any_keyword_in keywords text = list_ex (\<lambda>keyword. sublist keyword text) keywords"

text \<open>An f-string prints \<^verbatim>\<open>None\<close> as the text \<^verbatim>\<open>None\<close>.\<close>

definition fmt :: "string option \<Rightarrow> string" where
  "fmt v = (case v of None \<Rightarrow> ''None'' | Some text \<Rightarrow> text)"

datatype event = Idle | Submit string | Restart

subsection \<open>\<^verbatim>\<open>app.py\<close>\<close>

definition init_state :: app_state where
  "init_state =
     \<lparr>messages = [],
      candidate_data = \<lparr>info = (\<lambda>field. None), technical_answers = []\<rparr>,
      stage = Greeting,
      tech_questions_asked = 0,
      conversation_active = True,
      technical_questions = None,
      disk = Map.empty,
      notices = [],
      llm_calls = []\<rparr>"

text \<open>A call of \<^verbatim>\<open>call_llm\<close>: the text it returns, and the call recorded.\<close>

definition ask_llm :: "world \<Rightarrow> string \<Rightarrow> string \<Rightarrow> app_state \<Rightarrow> string option \<times> app_state" where
  "ask_llm w prompt system_prompt s =
     (fst (call_llm w prompt system_prompt), s\<lparr>llm_calls := llm_calls s @ [(prompt, system_prompt)]\<rparr>)"

definition required_fields :: "field list" where
  "required_fields = [Name, Email, Phone, Experience, Position, Location, Tech_stack]"

definition get_missing_info :: "app_state \<Rightarrow> field option" where
  "get_missing_info s = find (\<lambda>field. info (candidate_data s) field = None) required_fields"

definition extract_info_from_response :: "string \<Rightarrow> field \<Rightarrow> string" where
  "extract_info_from_response user_input field =
     (let user_input = str_strip user_input in
      if field = Experience then
        (let numbers = findall_digits user_input in
         if numbers \<noteq> [] then hd numbers @ '' years'' else user_input)
      else user_input)"

definition generate_technical_questions :: "world \<Rightarrow> string option \<Rightarrow> app_state \<Rightarrow> string option \<times> app_state" where
  "generate_technical_questions w tech_stack s =
     (let prompt = ''Based on this tech stack: '' @ fmt tech_stack @ nl @
                   ''    '' @ nl @
                   ''Generate 5 technical interview questions that assess practical knowledge and problem-solving.'' @ nl @
                   ''Make questions specific, clear, and progressively challenging.'' @ nl @
                   ''Format: Return only numbered questions (1-5), nothing else.''
      in ask_llm w prompt (SYSTEM_PROMPTS T_generate_questions) s)"

definition save_candidate_data :: "world \<Rightarrow> app_state \<Rightarrow> app_state" where
  "save_candidate_data w s =
     (let timestamp = now_stamp w;
          filename = ''candidate_'' @ timestamp @ ''.json'';
          (failure, files) = write_file w filename (json_dump (candidate_data s)) (disk s)
      in case failure of
           None \<Rightarrow>
             s\<lparr>disk := files,
               notices := notices s @ [Success (check_mark @ '' Candidate data saved to '' @ filename)]\<rparr>
         | Some e \<Rightarrow>
             s\<lparr>disk := files, notices := notices s @ [Error (''Error saving data: '' @ e)]\<rparr>)"

definition exit_keywords :: "string list" where
  "exit_keywords = [''bye'', ''goodbye'', ''exit'', ''quit'', ''end'', ''stop'', ''no thanks'', ''that's all'']"

text \<open>The farewell both the exit branch and the last answer end with.\<close>

definition say_farewell :: "world \<Rightarrow> app_state \<Rightarrow> app_state" where
  "say_farewell w s =
     (let s1 = s\<lparr>stage := Farewell\<rparr>;
          (farewell_msg, s2) = ask_llm w ''Generate farewell message'' (SYSTEM_PROMPTS T_farewell) s1;
          s3 = append_message Assistant farewell_msg s2;
          s4 = s3\<lparr>conversation_active := False\<rparr>
      in save_candidate_data w s4)"

text \<open>The branch \<^verbatim>\<open>stage == 'greeting'\<close> of \<^verbatim>\<open>process_user_input\<close>.\<close>

definition stage_greeting :: "world \<Rightarrow> app_state \<Rightarrow> app_state" where
  "stage_greeting w s =
     (let s1 = s\<lparr>stage := Collect_info\<rparr>;
          missing = get_missing_info s1;
          prompt = ''Ask for candidate's '' @ fmt (map_option field_key missing) @ ''. Be friendly and professional.'';
          (response, s2) = ask_llm w prompt (SYSTEM_PROMPTS T_collect_info) s1
      in append_message Assistant response s2)"

text \<open>The branch \<^verbatim>\<open>stage == 'collect_info'\<close>.\<close>

definition stage_collect_info :: "world \<Rightarrow> string \<Rightarrow> app_state \<Rightarrow> app_state" where
  "stage_collect_info w user_input s =
     (case get_missing_info s of
        None \<Rightarrow> s
      | Some missing \<Rightarrow>
          (let information = extract_info_from_response user_input missing;
               s1 = set_info missing information s
           in case get_missing_info s1 of
                Some next_missing \<Rightarrow>
                  (let prompt = ''The candidate just provided their '' @ field_key missing @ '': '' @ information @
                                ''. Now ask for their '' @ field_key next_missing @ ''.'';
                       (response, s2) = ask_llm w prompt (SYSTEM_PROMPTS T_collect_info) s1
                   in append_message Assistant response s2)
              | None \<Rightarrow>
                  (let s2 = s1\<lparr>stage := Technical_questions\<rparr>;
                       tech_stack = info (candidate_data s2) Tech_stack;
                       transition_msg = ''Great! I have all your information. Now let's assess your technical skills in '' @
                                        fmt tech_stack @ ''. I'll ask you 5 questions.'';
                       s3 = append_message Assistant (Some transition_msg) s2;
                       (questions, s4) = generate_technical_questions w tech_stack s3;
                       s5 = s4\<lparr>technical_questions := Some questions\<rparr>;
                       s6 = append_message Assistant questions s5
                   in append_message Assistant (Some ''Please answer Question 1:'') s6)))"

text \<open>The branch \<^verbatim>\<open>stage == 'technical_questions'\<close>.\<close>

definition stage_technical_questions :: "world \<Rightarrow> string \<Rightarrow> app_state \<Rightarrow> app_state" where
  "stage_technical_questions w user_input s =
     (let s1 = append_answer \<lparr>question_number = tech_questions_asked s + 1,
                             answer = user_input,
                             timestamp = now_iso w\<rparr> s;
          s2 = s1\<lparr>tech_questions_asked := tech_questions_asked s1 + 1\<rparr>;
          feedback_prompt = ''Provide brief encouraging feedback on this answer: '' @ take 200 user_input;
          (feedback, s3) = ask_llm w feedback_prompt (SYSTEM_PROMPTS T_evaluate_answer) s2;
          s4 = append_message Assistant feedback s3
      in if tech_questions_asked s4 < 5 then
           append_message Assistant
             (Some (''Please answer Question '' @ str_of_nat (tech_questions_asked s4 + 1) @ '':'')) s4
         else say_farewell w s4)"

definition process_user_input :: "world \<Rightarrow> string \<Rightarrow> app_state \<Rightarrow> app_state" where
  "process_user_input w user_input s =
     (let user_input_lower = str_strip (str_lower user_input) in
      if any_keyword_in exit_keywords user_input_lower then say_farewell w s
      else (case stage s of
              Greeting \<Rightarrow> stage_greeting w s
            | Collect_info \<Rightarrow> stage_collect_info w user_input s
            | Technical_questions \<Rightarrow> stage_technical_questions w user_input s
            | Farewell \<Rightarrow> s))"

text \<open>The part of the script that runs before the chat input: the greeting, once
  there is no message.\<close>

definition render :: "world \<Rightarrow> app_state \<Rightarrow> app_state" where
  "render w s =
     (if length (messages s) = 0 then
        (let (greeting, s1) = ask_llm w ''Greet the candidate'' (SYSTEM_PROMPTS T_greeting) s
         in append_message Assistant greeting s1)
      else s)"

definition briefcase :: string where
  "briefcase = [CHR 0xF0, CHR 0x9F, CHR 0x92, CHR 0xBC]"

text \<open>
  A run of \<^verbatim>\<open>app.py\<close> in which no widget fires: the page is drawn anew, the greeting
  is made if it is due, and once the conversation has ended the closing notice is shown.
\<close>

definition page :: "world \<Rightarrow> app_state \<Rightarrow> app_state" where
  "page w s =
     (let s1 = render w (s\<lparr>notices := []\<rparr>) in
      if conversation_active s1 then s1
      else s1\<lparr>notices := notices s1 @ [Info (briefcase @ '' Conversation ended. Thank you for your time!'')]\<rparr>)"

text \<open>
  One run of \<^verbatim>\<open>app.py\<close> on an event, with the rerun that \<^verbatim>\<open>st.rerun()\<close> starts: the
  rerun is a run in which no widget fires, and it replaces whatever the interrupted run
  had put on the page. The chat input exists while the conversation is active, the
  restart button once it is not; the button deletes every key of the session, and the
  rerun initialises it again.
\<close>

definition script :: "world \<Rightarrow> event \<Rightarrow> app_state \<Rightarrow> app_state" where
  "script w ev s =
     (let s1 = page w s in
      if conversation_active s1 then
        (case ev of
           Submit user_input \<Rightarrow>
             if user_input \<noteq> [] then
               page w (process_user_input w user_input (append_message User (Some user_input) s1))
             else s1
         | _ \<Rightarrow> s1)
      else
        (case ev of
           Restart \<Rightarrow> page w (init_state\<lparr>disk := disk s1, llm_calls := llm_calls s1\<rparr>)
         | _ \<Rightarrow> s1))"

fun run :: "(world \<times> event) list \<Rightarrow> app_state \<Rightarrow> app_state" where
  "run [] s = s"
| "run ((w, ev) # rest) s = run rest (script w ev s)"

subsection \<open>\<^verbatim>\<open>app_grok.py\<close>\<close>

definition init_grok :: grok_state where
  "init_grok =
     \<lparr>messages = [],
      candidate_data = \<lparr>info = (\<lambda>field. None), technical_answers = []\<rparr>,
      stage = Greeting,
      tech_questions_asked = 0,
      conversation_active = True,
      technical_questions = Some (Some []),
      disk = Map.empty,
      notices = [],
      llm_calls = [],
      current_field_index = 0,
      greeted = False,
      last_user_message = None\<rparr>"

text \<open>A call of \<^verbatim>\<open>call_groq_api\<close>: the text it returns, and the call recorded.\<close>

definition ask_groq :: "world \<Rightarrow> string \<Rightarrow> string \<Rightarrow> grok_state \<Rightarrow> string option \<times> grok_state" where
  "ask_groq w prompt system_prompt s =
     (fst (call_groq_api w prompt system_prompt), s\<lparr>llm_calls := llm_calls s @ [(prompt, system_prompt)]\<rparr>)"

definition generate_technical_questions_grok :: "world \<Rightarrow> string \<Rightarrow> grok_state \<Rightarrow> string option \<times> grok_state" where
  "generate_technical_questions_grok w tech_stack s =
     (let prompt = ''Tech stack: '' @ tech_stack @ nl @ nl @
                   ''Generate 5 specific technical questions. Format: numbered 1-5 only.''
      in ask_groq w prompt (SYSTEM_PROMPTS_grok T_generate_questions) s)"

text \<open>\<^verbatim>\<open>save_candidate_data\<close> of \<^verbatim>\<open>app_grok.py\<close> returns the message to show.\<close>

definition save_candidate_data_grok :: "world \<Rightarrow> grok_state \<Rightarrow> string \<times> grok_state" where
  "save_candidate_data_grok w s =
     (case makedirs_error w of
        Some e \<Rightarrow> (''Error saving data: '' @ e, s)
      | None \<Rightarrow>
          (let timestamp = now_stamp w;
               name0 = (case info (candidate_data s) Name of
                          None \<Rightarrow> ''unknown''
                        | Some n \<Rightarrow> if n = [] then ''unknown'' else n);
               name1 = replace_spaces name0;
               filename = ''candidate_data/'' @ name1 @ ''_'' @ timestamp @ ''.json'';
               data_to_save = candidate_data s;
               (failure, files) = write_file w filename (json_dump data_to_save) (disk s)
           in case failure of
                None \<Rightarrow> (check_mark @ '' Data saved: `'' @ filename @ ''`'', s\<lparr>disk := files\<rparr>)
              | Some e \<Rightarrow> (''Error saving data: '' @ e, s\<lparr>disk := files\<rparr>)))"

definition ask_next_info_field :: "world \<Rightarrow> bool \<Rightarrow> grok_state \<Rightarrow> grok_state" where
  "ask_next_info_field w is_first_field s =
     (if current_field_index s < length FIELD_ORDER then
        (let next_field = FIELD_ORDER ! current_field_index s;
             prompt = (if is_first_field
                       then ''Ask for their '' @ FIELD_PROMPTS next_field @ ''. One short question.''
                       else ''Thank them briefly. Then ask for their '' @ FIELD_PROMPTS next_field @ ''. Keep short.'');
             (response, s1) = ask_groq w prompt (SYSTEM_PROMPTS_grok T_collect_info) s
         in append_message Assistant response s1)
      else
        (let s1 = s\<lparr>stage := Technical_questions\<rparr>;
             tech_stack = (case info (candidate_data s1) Tech_stack of
                             None \<Rightarrow> ''unspecified tech stack''
                           | Some t \<Rightarrow> if t = [] then ''unspecified tech stack'' else t);
             transition_msg = ''Perfect! Now let's assess your **'' @ tech_stack @ ''** skills. I'll ask 5 questions.'';
             s2 = append_message Assistant (Some transition_msg) s1;
             (questions, s3) = generate_technical_questions_grok w tech_stack s2;
             s4 = s3\<lparr>technical_questions := Some questions\<rparr>;
             s5 = append_message Assistant questions s4
         in append_message Assistant (Some (nl @ ''**Please answer Question 1:**'')) s5))"

definition handle_greeting_stage :: "world \<Rightarrow> grok_state \<Rightarrow> grok_state" where
  "handle_greeting_stage w s =
     (if \<not> greeted s then
        (let (greeting, s1) = ask_groq w ''Greet the candidate for a hiring interview''
                                (SYSTEM_PROMPTS_grok T_greeting) s;
             s2 = append_message Assistant greeting s1;
             s3 = s2\<lparr>greeted := True\<rparr>;
             s4 = s3\<lparr>stage := Collect_info\<rparr>
         in ask_next_info_field w True s4)
      else s)"

definition process_user_input_info :: "world \<Rightarrow> string \<Rightarrow> grok_state \<Rightarrow> grok_state" where
  "process_user_input_info w user_input s =
     (let idx = current_field_index s in
      if idx < length FIELD_ORDER then
        (let current_field = FIELD_ORDER ! idx;
             s1 = set_info current_field (str_strip user_input) s;
             s2 = s1\<lparr>current_field_index := current_field_index s1 + 1\<rparr>
         in ask_next_info_field w False s2)
      else
        ask_next_info_field w False (s\<lparr>stage := Technical_questions\<rparr>))"

definition process_user_input_technical :: "world \<Rightarrow> string \<Rightarrow> grok_state \<Rightarrow> grok_state" where
  "process_user_input_technical w user_input s =
     (let qa = \<lparr>question_number = tech_questions_asked s + 1,
                answer = user_input,
                timestamp = now_iso w\<rparr>;
          s1 = append_answer qa s;
          s2 = s1\<lparr>tech_questions_asked := tech_questions_asked s1 + 1\<rparr>;
          feedback_prompt = ''Brief encouraging feedback on the answer: '' @ take 200 user_input @ ''...'';
          (feedback, s3) = ask_groq w feedback_prompt (SYSTEM_PROMPTS_grok T_evaluate_answer) s2;
          s4 = append_message Assistant feedback s3
      in if tech_questions_asked s4 < 5 then
           append_message Assistant
             (Some (nl @ ''**Please answer Question '' @ str_of_nat (tech_questions_asked s4 + 1) @ '':**'')) s4
         else
           (let (farewell, s5) = ask_groq w ''Generate farewell'' (SYSTEM_PROMPTS_grok T_farewell) s4;
                s6 = append_message Assistant farewell s5;
                (save_message, s7) = save_candidate_data_grok w s6;
                s8 = append_message Assistant (Some save_message) s7
            in s8\<lparr>conversation_active := False\<rparr>))"

definition exit_words :: "string list" where
  "exit_words = [''bye'', ''goodbye'', ''exit'', ''quit'', ''end'', ''stop'']"

text \<open>The exit branch of the script.\<close>

definition exit_branch :: "world \<Rightarrow> grok_state \<Rightarrow> grok_state" where
  "exit_branch w s =
     (let (farewell, s1) = ask_groq w ''Generate farewell'' (SYSTEM_PROMPTS_grok T_farewell) s;
          (save_message, s2) = save_candidate_data_grok w s1;
          s3 = append_message Assistant farewell s2;
          s4 = append_message Assistant (Some save_message) s3
      in s4\<lparr>conversation_active := False\<rparr>)"

text \<open>The routing by stage of the script.\<close>

definition route_by_stage :: "world \<Rightarrow> string \<Rightarrow> grok_state \<Rightarrow> grok_state" where
  "route_by_stage w raw s =
     (if stage s = Collect_info then process_user_input_info w raw s
      else if stage s = Technical_questions then process_user_input_technical w raw s
      else (append_message Assistant (Some ''I'm not sure what to do next. Restarting interview.'') s)
             \<lparr>conversation_active := False\<rparr>)"

text \<open>The top of the script: \<^verbatim>\<open>if stage == 'greeting': handle_greeting_stage()\<close>.\<close>

definition top_of_script :: "world \<Rightarrow> grok_state \<Rightarrow> grok_state" where
  "top_of_script w s = (if stage s = Greeting then handle_greeting_stage w s else s)"

text \<open>
  A run of \<^verbatim>\<open>app_grok.py\<close> in which no widget fires: the page is drawn anew, the top of
  the script runs, and once the conversation has ended the closing notice is shown.
\<close>

definition page_grok :: "world \<Rightarrow> grok_state \<Rightarrow> grok_state" where
  "page_grok w s =
     (let s1 = top_of_script w (s\<lparr>notices := []\<rparr>) in
      if conversation_active s1 then s1
      else s1\<lparr>notices := notices s1 @ [Info (briefcase @ '' Interview completed! Thank you.'')]\<rparr>)"

definition em_dash :: string where
  "em_dash = [CHR 0xE2, CHR 0x80, CHR 0x94]"

text \<open>The handling of a pressed \<^verbatim>\<open>Send\<close> button. The two notices stay on the page; after
  an accepted input the script reruns.\<close>

definition on_submit :: "world \<Rightarrow> string \<Rightarrow> grok_state \<Rightarrow> grok_state" where
  "on_submit w user_input s =
     (let raw = str_strip user_input in
      if raw = [] then s\<lparr>notices := notices s @ [Warning ''Please type something before sending.'']\<rparr>
      else if Some raw = last_user_message s then
        s\<lparr>notices := notices s @ [Info (''Duplicate message detected '' @ em_dash @ '' ignored.'')]\<rparr>
      else
        (let s1 = s\<lparr>last_user_message := Some raw\<rparr>;
             s2 = append_message User (Some raw) s1
         in if any_keyword_in exit_words (str_lower raw) then page_grok w (exit_branch w s2)
            else page_grok w (route_by_stage w raw s2)))"

text \<open>The reset of the button \<^verbatim>\<open>Start New Interview\<close>.\<close>

definition reset_grok :: "grok_state \<Rightarrow> grok_state" where
  "reset_grok s =
     s\<lparr>messages := [],
       candidate_data := \<lparr>info = (\<lambda>field. None), technical_answers = []\<rparr>,
       current_field_index := 0,
       tech_questions_asked := 0,
       conversation_active := True,
       technical_questions := Some (Some []),
       stage := Greeting,
       greeted := False,
       last_user_message := None\<rparr>"

text \<open>One run of \<^verbatim>\<open>app_grok.py\<close> on an event, with the rerun it starts.\<close>

definition script_grok :: "world \<Rightarrow> event \<Rightarrow> grok_state \<Rightarrow> grok_state" where
  "script_grok w ev s =
     (let s1 = page_grok w s in
      if conversation_active s1 then
        (case ev of Submit user_input \<Rightarrow> on_submit w user_input s1 | _ \<Rightarrow> s1)
      else
        (case ev of Restart \<Rightarrow> page_grok w (reset_grok s1) | _ \<Rightarrow> s1))"

fun run_grok :: "(world \<times> event) list \<Rightarrow> grok_state \<Rightarrow> grok_state" where
  "run_grok [] s = s"
| "run_grok ((w, ev) # rest) s = run_grok rest (script_grok w ev s)"

subsection \<open>Notions the properties are stated with\<close>

text \<open>The declared order of the stages.\<close>

fun stage_rank :: "stage \<Rightarrow> nat" where
  "stage_rank Greeting = 0"
| "stage_rank Collect_info = 1"
| "stage_rank Technical_questions = 2"
| "stage_rank Farewell = 3"

text \<open>A stretch of a session in which the restart button is not pressed.\<close>

definition no_restart :: "(world \<times> event) list \<Rightarrow> bool" where
  "no_restart evs = list_all (\<lambda>(w, ev). ev \<noteq> Restart) evs"

text \<open>The fields of a record that hold a value, in declared order.\<close>

definition filled :: "candidate_data \<Rightarrow> field list" where
  "filled d = filter (\<lambda>field. info d field \<noteq> None) FIELD_ORDER"

text \<open>The first digit run of a text, written without the regular expression.\<close>

definition first_number :: "string \<Rightarrow> string" where
  "first_number text = takeWhile is_digit (dropWhile (\<lambda>c. \<not> is_digit c) text)"

text \<open>A world in which everything works: a key is set, the service answers, the file
  can be written. Variations of it serve as concrete inputs.\<close>

definition world0 :: world where
  "world0 =
     \<lparr>secrets_get = Inr None,
      getenv = Some ''gsk-test'',
      service = (\<lambda>prompt system_prompt attempt. Reply (Some ''ok'')),
      now_iso = ''2024-05-01T10:00:00'',
      now_stamp = ''20240501_100000'',
      makedirs_error = None,
      open_error = (\<lambda>path. None),
      dump_error = None,
      import_error = None\<rparr>"

text \<open>The counter agrees with the stored answers, which are numbered from 1.\<close>

definition answers_ok :: "'a app_state_scheme \<Rightarrow> bool" where
  "answers_ok s =
     (tech_questions_asked s = length (technical_answers (candidate_data s))
      \<and> map question_number (technical_answers (candidate_data s)) = [1..<Suc (tech_questions_asked s)])"

text \<open>Exactly the first \<open>k\<close> fields of the declared order hold a value.\<close>

definition filled_upto :: "nat \<Rightarrow> candidate_data \<Rightarrow> bool" where
  "filled_upto k d = (\<forall>field. (info d field = None) = (field \<notin> set (take k FIELD_ORDER)))"

text \<open>The prompts by which \<^verbatim>\<open>app.py\<close> has the collaborator ask for a field.\<close>

definition asks_for :: "field \<Rightarrow> string \<Rightarrow> bool" where
  "asks_for field prompt =
     (prompt = ''Ask for candidate's '' @ field_key field @ ''. Be friendly and professional.''
      \<or> suffix (''. Now ask for their '' @ field_key field @ ''.'') prompt)"

text \<open>The invariant of \<^verbatim>\<open>app.py\<close>.\<close>

definition inv_app :: "app_state \<Rightarrow> bool" where
  "inv_app s =
     (answers_ok s
      \<and> tech_questions_asked s \<le> 5
      \<and> (stage s \<noteq> Farewell \<longrightarrow> tech_questions_asked s < 5)
      \<and> (\<exists>k. filled_upto k (candidate_data s))
      \<and> (conversation_active s = (stage s \<noteq> Farewell))
      \<and> (stage s = Greeting \<longrightarrow> filled_upto 0 (candidate_data s))
      \<and> (stage s \<noteq> Greeting \<longrightarrow> messages s \<noteq> [])
      \<and> (stage s = Collect_info \<longrightarrow>
            llm_calls s \<noteq> []
            \<and> (\<exists>field. get_missing_info s = Some field \<and> asks_for field (fst (last (llm_calls s))))))"

text \<open>The prompts by which \<^verbatim>\<open>app_grok.py\<close> has the collaborator ask for a field.\<close>

definition asks_for_grok :: "field \<Rightarrow> string \<Rightarrow> bool" where
  "asks_for_grok field prompt =
     (prompt = ''Ask for their '' @ FIELD_PROMPTS field @ ''. One short question.''
      \<or> prompt = ''Thank them briefly. Then ask for their '' @ FIELD_PROMPTS field @ ''. Keep short.'')"

text \<open>The text of the last user message of a transcript.\<close>

fun last_user_text :: "message list \<Rightarrow> string option" where
  "last_user_text [] = None"
| "last_user_text (m # ms) =
     (case last_user_text ms of
        Some text \<Rightarrow> Some text
      | None \<Rightarrow> if role m = User then content m else None)"

text \<open>The invariant of \<^verbatim>\<open>app_grok.py\<close>.\<close>

definition inv_grok :: "grok_state \<Rightarrow> bool" where
  "inv_grok s =
     (answers_ok s
      \<and> tech_questions_asked s \<le> 5
      \<and> (conversation_active s \<longrightarrow> tech_questions_asked s < 5)
      \<and> current_field_index s \<le> 7
      \<and> filled_upto (current_field_index s) (candidate_data s)
      \<and> (stage s = Greeting \<longrightarrow> \<not> greeted s \<and> current_field_index s = 0 \<and> last_user_message s = None)
      \<and> (stage s = Collect_info \<longrightarrow> current_field_index s < 7)
      \<and> (stage s = Technical_questions \<longrightarrow> current_field_index s = 7)
      \<and> stage s \<noteq> Farewell
      \<and> last_user_message s = last_user_text (messages s)
      \<and> (conversation_active s \<longrightarrow>
            (\<forall>text. last_user_message s = Some text \<longrightarrow> \<not> any_keyword_in exit_words (str_lower text)))
      \<and> (conversation_active s \<and> stage s = Collect_info \<longrightarrow>
            llm_calls s \<noteq> []
            \<and> asks_for_grok (FIELD_ORDER ! current_field_index s) (fst (last (llm_calls s)))))"

text \<open>The name, the path and the message of \<^verbatim>\<open>save_candidate_data\<close> in \<^verbatim>\<open>app_grok.py\<close>,
  named so that properties can speak of them.\<close>

definition saved_name :: "candidate_data \<Rightarrow> string" where
  "saved_name d = replace_spaces (case info d Name of None \<Rightarrow> ''unknown'' | Some n \<Rightarrow> if n = [] then ''unknown'' else n)"

definition saved_file :: "world \<Rightarrow> candidate_data \<Rightarrow> string" where
  "saved_file w d = saved_name d @ ''_'' @ now_stamp w @ ''.json''"

definition saved_path :: "world \<Rightarrow> candidate_data \<Rightarrow> string" where
  "saved_path w d = ''candidate_data/'' @ saved_file w d"

text \<open>The exception that keeps \<^verbatim>\<open>app_grok.py\<close> from saving the record, if any.\<close>

definition save_failure :: "world \<Rightarrow> candidate_data \<Rightarrow> string option" where
  "save_failure w d =
     (case makedirs_error w of
        Some e \<Rightarrow> Some e
      | None \<Rightarrow> write_failure w (saved_path w d))"

definition save_message :: "world \<Rightarrow> candidate_data \<Rightarrow> string" where
  "save_message w d =
     (case save_failure w d of
        Some e \<Rightarrow> ''Error saving data: '' @ e
      | None \<Rightarrow> check_mark @ '' Data saved: `'' @ saved_path w d @ ''`'')"

text \<open>The files after \<^verbatim>\<open>save_candidate_data\<close> of either script has run on a record.\<close>

definition files_after_save :: "world \<Rightarrow> candidate_data \<Rightarrow> (string \<rightharpoonup> string) \<Rightarrow> (string \<rightharpoonup> string)" where
  "files_after_save w d files =
     snd (write_file w (''candidate_'' @ now_stamp w @ ''.json'') (json_dump d) files)"

definition files_after_save_grok :: "world \<Rightarrow> candidate_data \<Rightarrow> (string \<rightharpoonup> string) \<Rightarrow> (string \<rightharpoonup> string)" where
  "files_after_save_grok w d files =
     (case makedirs_error w of
        Some e \<Rightarrow> files
      | None \<Rightarrow> snd (write_file w (saved_path w d) (json_dump d) files))"

text \<open>A concrete interview: the greeting-stage input of \<^verbatim>\<open>app.py\<close>, then the seven
  fields. None of the texts contains an exit keyword.\<close>

definition interview_inputs :: "string list" where
  "interview_inputs =
     [''Ada Lovelace'', ''ada@example.org'', ''555 0100'', ''5 years'', ''Engineer'', ''London'', ''Python, SQL'']"

definition collected :: "(world \<times> event) list" where
  "collected = map (\<lambda>u. (world0, Submit u)) (''hello'' # interview_inputs)"

definition collected_grok :: "(world \<times> event) list" where
  "collected_grok = map (\<lambda>u. (world0, Submit u)) interview_inputs"

text \<open>The same interview after two fields.\<close>

definition two_fields :: "(world \<times> event) list" where
  "two_fields = map (\<lambda>u. (world0, Submit u)) [''hello'', ''Ada Lovelace'', ''ada@example.org'']"

definition two_fields_grok :: "(world \<times> event) list" where
  "two_fields_grok = map (\<lambda>u. (world0, Submit u)) [''Ada Lovelace'', ''ada@example.org'']"

text \<open>The keys of \<^verbatim>\<open>st.session_state\<close> that \<^verbatim>\<open>app_grok.py\<close> keeps, as one value.\<close>

definition grok_session ::
  "grok_state \<Rightarrow> message list \<times> candidate_data \<times> stage \<times> nat \<times> bool \<times> string option option \<times> nat \<times> bool \<times> string option" where
  "grok_session s =
     (messages s, candidate_data s, stage s, tech_questions_asked s, conversation_active s,
      technical_questions s, current_field_index s, greeted s, last_user_message s)"



text \<open>The same interview after three fields: the experience is asked for next.\<close>

definition three_fields :: "(world \<times> event) list" where
  "three_fields = map (\<lambda>u. (world0, Submit u)) [''hello'', ''Ada Lovelace'', ''ada@example.org'', ''555 0100'']"

definition three_fields_grok :: "(world \<times> event) list" where
  "three_fields_grok = map (\<lambda>u. (world0, Submit u)) [''Ada Lovelace'', ''ada@example.org'', ''555 0100'']"


text \<open>The keys of \<^verbatim>\<open>app_grok.py\<close> other than the transcript.\<close>

definition grok_core ::
  "grok_state \<Rightarrow> candidate_data \<times> stage \<times> nat \<times> bool \<times> string option option \<times> nat \<times> bool \<times> string option" where
  "grok_core s =
     (candidate_data s, stage s, tech_questions_asked s, conversation_active s,
      technical_questions s, current_field_index s, greeted s, last_user_message s)"


definition one_answer_json :: string where
  "one_answer_json =
     ''['' @ nl @
     ''    {'' @ nl @
     ''      '' @ dq @ ''question_number'' @ dq @ '': 12,'' @ nl @
     ''      '' @ dq @ ''answer'' @ dq @ '': '' @ dq @ ''a '' @ [CHR 0x5C] @ dq @ ''b'' @ [CHR 0x5C] @ dq @ [CHR 0x5C] @ ''n'' @ dq @ '','' @ nl @
     ''      '' @ dq @ ''timestamp'' @ dq @ '': '' @ dq @ ''2024-05-01T10:00:00'' @ dq @ nl @
     ''    }'' @ nl @
     ''  ]''"


definition disk_full :: world where
  "disk_full = world0\<lparr>dump_error := Some (''No space left on device'', 12)\<rparr>"

text \<open>A world that differs from \<open>w\<close> only in how saving goes.\<close>

definition writing :: "string option \<Rightarrow> (string \<Rightarrow> string option) \<Rightarrow> (string \<times> nat) option \<Rightarrow> world \<Rightarrow> world" where
  "writing m oe de w = w\<lparr>makedirs_error := m, open_error := oe, dump_error := de\<rparr>"

text \<open>Worlds in which the collaborator cannot be reached, or answers with no content,
  and worlds without a credential: with an empty secrets store, and with none.\<close>

definition cut_off :: world where
  "cut_off = world0\<lparr>service := (\<lambda>prompt system_prompt attempt.
       if attempt = 0 then Request_exception ''timed out'' else Reply (Some ''ok''))\<rparr>"

definition null_reply :: world where
  "null_reply = world0\<lparr>service := (\<lambda>prompt system_prompt attempt. Reply None)\<rparr>"

definition no_key :: world where
  "no_key = world0\<lparr>getenv := None\<rparr>"

definition no_secrets :: world where
  "no_secrets = world0\<lparr>getenv := None, secrets_get := Inl ''No secrets files found''\<rparr>"

section \<open>Properties\<close>

subsection \<open>Strings\<close>

lemma sublist_dropWhile_iff:
  assumes "k \<noteq> []" "\<not> P (hd k)"
  shows "sublist k (dropWhile P s) \<longleftrightarrow> sublist k s"
  using assms
proof (induction s)
  case Nil
  then show ?case by simp
next
  case (Cons x xs)
  show ?case
  proof (cases "P x")
    case True
    have "\<not> prefix k (x # xs)"
      using Cons.prems True by (cases k) auto
    then show ?thesis
      using Cons True by (simp add: sublist_Cons_right)
  next
    case False
    then show ?thesis by simp
  qed
qed

lemma sublist_strip_iff:
  assumes "k \<noteq> []" "\<not> is_space (hd k)" "\<not> is_space (last k)"
  shows "sublist k (str_strip s) \<longleftrightarrow> sublist k s"
proof -
  have "sublist k (str_strip s) \<longleftrightarrow> sublist (rev k) (dropWhile is_space (rev (dropWhile is_space s)))"
    unfolding str_strip_def by (simp add: sublist_rev_right)
  also have "\<dots> \<longleftrightarrow> sublist (rev k) (rev (dropWhile is_space s))"
    using assms by (intro sublist_dropWhile_iff) (simp_all add: hd_rev)
  also have "\<dots> \<longleftrightarrow> sublist k (dropWhile is_space s)"
    by simp
  also have "\<dots> \<longleftrightarrow> sublist k s"
    using assms by (intro sublist_dropWhile_iff) simp_all
  finally show ?thesis .
qed

lemma is_space_lower_char: "is_space (lower_char c) = is_space c"
  by (cases c) (auto simp: lower_char_def is_upper_def is_space_def Let_def of_bool_def split: if_splits)

lemma lower_set_bit5: "is_upper c \<Longrightarrow> (of_char (set_bit5 c) :: nat) = of_char c + 32"
  by (cases c) (auto simp: is_upper_def Let_def of_bool_def split: if_splits)

lemma str_lower_dropWhile: "str_lower (dropWhile is_space s) = dropWhile is_space (str_lower s)"
  by (induction s) (auto simp: str_lower_def is_space_lower_char)

lemma str_lower_strip: "str_lower (str_strip s) = str_strip (str_lower s)"
proof -
  have r: "rev (str_lower t) = str_lower (rev t)" for t
    by (simp add: str_lower_def rev_map)
  show ?thesis
    unfolding str_strip_def
    by (simp add: r str_lower_dropWhile [symmetric])
qed

subsection \<open>The declared order of the fields\<close>

lemma find_not_in_take:
  "distinct xs \<Longrightarrow> k < length xs \<Longrightarrow> find (\<lambda>x. x \<notin> set (take k xs)) xs = Some (xs ! k)"
proof (induction xs arbitrary: k)
  case Nil
  then show ?case by simp
next
  case (Cons x xs)
  show ?case
  proof (cases k)
    case 0
    then show ?thesis by simp
  next
    case (Suc j)
    have "find (\<lambda>y. y \<notin> set (take j xs)) xs = Some (xs ! j)"
      using Cons Suc by simp
    moreover have "find (\<lambda>y. y \<noteq> x \<and> y \<notin> set (take j xs)) xs = find (\<lambda>y. y \<notin> set (take j xs)) xs"
      using Cons.prems(1) by (intro find_cong) auto
    ultimately show ?thesis
      using Suc by simp
  qed
qed

lemma filter_in_take:
  "distinct xs \<Longrightarrow> filter (\<lambda>x. x \<in> set (take k xs)) xs = take k xs"
proof (induction xs arbitrary: k)
  case Nil
  then show ?case by simp
next
  case (Cons x xs)
  show ?case
  proof (cases k)
    case 0
    then show ?thesis by simp
  next
    case (Suc j)
    have "filter (\<lambda>y. y = x \<or> y \<in> set (take j xs)) xs = filter (\<lambda>y. y \<in> set (take j xs)) xs"
      using Cons.prems by (intro filter_cong) auto
    then show ?thesis
      using Cons Suc by simp
  qed
qed

lemma distinct_FIELD_ORDER: "distinct FIELD_ORDER"
  by (simp add: FIELD_ORDER_def)

lemma length_FIELD_ORDER [simp]: "length FIELD_ORDER = 7"
  by (simp add: FIELD_ORDER_def)

lemma set_FIELD_ORDER: "field \<in> set FIELD_ORDER"
  by (cases field) (simp_all add: FIELD_ORDER_def)

lemma filled_upto_filled: "filled_upto k d \<Longrightarrow> filled d = take k FIELD_ORDER"
  by (simp add: filled_upto_def filled_def filter_in_take distinct_FIELD_ORDER)

lemma filled_upto_prefix: "filled_upto k d \<Longrightarrow> prefix (filled d) FIELD_ORDER"
  by (simp add: filled_upto_filled take_is_prefix)

lemma filled_upto_find:
  assumes "filled_upto k d" "k < 7"
  shows "find (\<lambda>field. info d field = None) FIELD_ORDER = Some (FIELD_ORDER ! k)"
proof -
  have "(\<lambda>field. info d field = None) = (\<lambda>field. field \<notin> set (take k FIELD_ORDER))"
    using assms(1) by (simp add: filled_upto_def fun_eq_iff)
  then show ?thesis
    using assms(2) by (simp add: find_not_in_take distinct_FIELD_ORDER)
qed

lemma filled_upto_find_none:
  assumes "filled_upto k d" "7 \<le> k"
  shows "find (\<lambda>field. info d field = None) FIELD_ORDER = None"
  using assms by (simp add: filled_upto_def find_None_iff)

lemma filled_upto_step:
  assumes "filled_upto k d" "k < 7"
  shows "filled_upto (Suc k) (d\<lparr>info := (info d)(FIELD_ORDER ! k := Some v)\<rparr>)"
  using assms by (auto simp: filled_upto_def take_Suc_conv_app_nth)

lemma filled_upto_init: "filled_upto 0 \<lparr>info = (\<lambda>field. None), technical_answers = []\<rparr>"
  by (simp add: filled_upto_def)

lemma filled_upto_cap: "filled_upto k d \<Longrightarrow> filled_upto (min k 7) d"
  by (simp add: filled_upto_def min_def)


subsection \<open>Steps of \<^verbatim>\<open>app.py\<close>\<close>

lemma ask_llm_fst [simp]: "fst (ask_llm w p sp s) = fst (call_llm w p sp)"
  by (simp add: ask_llm_def)

lemma ask_llm_snd [simp]: "snd (ask_llm w p sp s) = s\<lparr>llm_calls := llm_calls s @ [(p, sp)]\<rparr>"
  by (simp add: ask_llm_def)

lemma append_message_fields [simp]:
  "messages (append_message r t s) = messages s @ [\<lparr>role = r, content = t\<rparr>]"
  "candidate_data (append_message r t s) = candidate_data s"
  "stage (append_message r t s) = stage s"
  "tech_questions_asked (append_message r t s) = tech_questions_asked s"
  "conversation_active (append_message r t s) = conversation_active s"
  "technical_questions (append_message r t s) = technical_questions s"
  "disk (append_message r t s) = disk s"
  "notices (append_message r t s) = notices s"
  "llm_calls (append_message r t s) = llm_calls s"
  by (simp_all add: append_message_def)

lemma set_info_fields [simp]:
  "messages (set_info f t s) = messages s"
  "info (candidate_data (set_info f t s)) = (info (candidate_data s))(f := Some t)"
  "technical_answers (candidate_data (set_info f t s)) = technical_answers (candidate_data s)"
  "stage (set_info f t s) = stage s"
  "tech_questions_asked (set_info f t s) = tech_questions_asked s"
  "conversation_active (set_info f t s) = conversation_active s"
  "technical_questions (set_info f t s) = technical_questions s"
  "disk (set_info f t s) = disk s"
  "notices (set_info f t s) = notices s"
  "llm_calls (set_info f t s) = llm_calls s"
  by (simp_all add: set_info_def)

lemma append_answer_fields [simp]:
  "messages (append_answer qa s) = messages s"
  "info (candidate_data (append_answer qa s)) = info (candidate_data s)"
  "technical_answers (candidate_data (append_answer qa s)) = technical_answers (candidate_data s) @ [qa]"
  "stage (append_answer qa s) = stage s"
  "tech_questions_asked (append_answer qa s) = tech_questions_asked s"
  "conversation_active (append_answer qa s) = conversation_active s"
  "technical_questions (append_answer qa s) = technical_questions s"
  "disk (append_answer qa s) = disk s"
  "notices (append_answer qa s) = notices s"
  "llm_calls (append_answer qa s) = llm_calls s"
  by (simp_all add: append_answer_def)

lemma get_missing_info_cong:
  "info (candidate_data s) = info (candidate_data t) \<Longrightarrow> get_missing_info s = get_missing_info t"
  by (simp add: get_missing_info_def)

lemma required_fields_eq: "required_fields = FIELD_ORDER"
  by (simp add: required_fields_def FIELD_ORDER_def)

lemma get_missing_info_Some:
  "get_missing_info s = Some field \<Longrightarrow> info (candidate_data s) field = None"
  by (auto simp: get_missing_info_def find_Some_iff)

lemma write_file_fst: "fst (write_file w filename t files) = write_failure w filename"
  by (simp add: write_file_def write_failure_def split: option.split)

lemma write_file_works:
  "write_failure w filename = None \<Longrightarrow> snd (write_file w filename t files) = files(filename \<mapsto> t)"
  by (auto simp: write_file_def write_failure_def split: option.splits)

lemma save_fields [simp]:
  "messages (save_candidate_data w s) = messages s"
  "candidate_data (save_candidate_data w s) = candidate_data s"
  "stage (save_candidate_data w s) = stage s"
  "tech_questions_asked (save_candidate_data w s) = tech_questions_asked s"
  "conversation_active (save_candidate_data w s) = conversation_active s"
  "technical_questions (save_candidate_data w s) = technical_questions s"
  "llm_calls (save_candidate_data w s) = llm_calls s"
  by (simp_all add: save_candidate_data_def Let_def split_def split: option.split)

lemma save_disk:
  "disk (save_candidate_data w s) = files_after_save w (candidate_data s) (disk s)"
  by (simp add: save_candidate_data_def files_after_save_def Let_def split_def split: option.split)

lemma farewell_fields [simp]:
  "messages (say_farewell w s) = messages s @
     [\<lparr>role = Assistant, content = fst (call_llm w ''Generate farewell message'' (SYSTEM_PROMPTS T_farewell))\<rparr>]"
  "candidate_data (say_farewell w s) = candidate_data s"
  "stage (say_farewell w s) = Farewell"
  "tech_questions_asked (say_farewell w s) = tech_questions_asked s"
  "conversation_active (say_farewell w s) = False"
  "technical_questions (say_farewell w s) = technical_questions s"
  "llm_calls (say_farewell w s) = llm_calls s @ [(''Generate farewell message'', SYSTEM_PROMPTS T_farewell)]"
  by (simp_all add: say_farewell_def Let_def split_def)

lemma farewell_disk:
  "disk (say_farewell w s) = files_after_save w (candidate_data s) (disk s)"
  by (simp add: say_farewell_def Let_def split_def save_disk)

lemma greeting_fields [simp]:
  "messages (stage_greeting w s) \<noteq> []"
  "candidate_data (stage_greeting w s) = candidate_data s"
  "stage (stage_greeting w s) = Collect_info"
  "tech_questions_asked (stage_greeting w s) = tech_questions_asked s"
  "conversation_active (stage_greeting w s) = conversation_active s"
  "disk (stage_greeting w s) = disk s"
  by (simp_all add: stage_greeting_def Let_def split_def)

lemma greeting_calls:
  "llm_calls (stage_greeting w s) = llm_calls s @
     [(''Ask for candidate's '' @ fmt (map_option field_key (get_missing_info s)) @ ''. Be friendly and professional.'',
       SYSTEM_PROMPTS T_collect_info)]"
  by (simp add: stage_greeting_def Let_def split_def get_missing_info_def)

lemma collect_fields [simp]:
  "tech_questions_asked (stage_collect_info w u s) = tech_questions_asked s"
  "technical_answers (candidate_data (stage_collect_info w u s)) = technical_answers (candidate_data s)"
  "conversation_active (stage_collect_info w u s) = conversation_active s"
  "disk (stage_collect_info w u s) = disk s"
  by (simp_all add: stage_collect_info_def generate_technical_questions_def Let_def split_def
        split: option.split)

lemma collect_messages: "messages s \<noteq> [] \<Longrightarrow> messages (stage_collect_info w u s) \<noteq> []"
  by (simp add: stage_collect_info_def generate_technical_questions_def Let_def split_def
        split: option.split)

lemma collect_info:
  "info (candidate_data (stage_collect_info w u s)) =
     (case get_missing_info s of
        None \<Rightarrow> info (candidate_data s)
      | Some missing \<Rightarrow> (info (candidate_data s))(missing := Some (extract_info_from_response u missing)))"
  by (simp add: stage_collect_info_def generate_technical_questions_def Let_def split_def
        split: option.split)

lemma collect_stage:
  "stage (stage_collect_info w u s) =
     (case get_missing_info s of
        None \<Rightarrow> stage s
      | Some missing \<Rightarrow>
          (case get_missing_info (set_info missing (extract_info_from_response u missing) s) of
             None \<Rightarrow> Technical_questions
           | Some next_missing \<Rightarrow> stage s))"
  by (simp add: stage_collect_info_def generate_technical_questions_def Let_def split_def
        split: option.split)

lemma collect_calls:
  assumes "get_missing_info s = Some missing"
    and "get_missing_info (set_info missing (extract_info_from_response u missing) s) = Some next_missing"
  shows "llm_calls (stage_collect_info w u s) = llm_calls s @
     [(''The candidate just provided their '' @ field_key missing @ '': '' @ extract_info_from_response u missing @
       ''. Now ask for their '' @ field_key next_missing @ ''.'', SYSTEM_PROMPTS T_collect_info)]"
  using assms by (simp add: stage_collect_info_def Let_def split_def)

lemma technical_fields [simp]:
  "info (candidate_data (stage_technical_questions w u s)) = info (candidate_data s)"
  "technical_answers (candidate_data (stage_technical_questions w u s)) =
     technical_answers (candidate_data s) @
       [\<lparr>question_number = tech_questions_asked s + 1, answer = u, timestamp = now_iso w\<rparr>]"
  "tech_questions_asked (stage_technical_questions w u s) = tech_questions_asked s + 1"
  "messages (stage_technical_questions w u s) \<noteq> []"
  by (simp_all add: stage_technical_questions_def Let_def split_def)

lemma technical_stage:
  "stage (stage_technical_questions w u s) = (if tech_questions_asked s + 1 < 5 then stage s else Farewell)"
  by (simp add: stage_technical_questions_def Let_def split_def)

lemma technical_active:
  "conversation_active (stage_technical_questions w u s) =
     (if tech_questions_asked s + 1 < 5 then conversation_active s else False)"
  by (simp add: stage_technical_questions_def Let_def split_def)


lemma render_fields [simp]:
  "candidate_data (render w s) = candidate_data s"
  "stage (render w s) = stage s"
  "tech_questions_asked (render w s) = tech_questions_asked s"
  "conversation_active (render w s) = conversation_active s"
  "disk (render w s) = disk s"
  "messages (render w s) \<noteq> []"
  by (simp_all add: render_def Let_def split_def)

lemma render_idle: "messages s \<noteq> [] \<Longrightarrow> render w s = s"
  by (simp add: render_def)

lemma get_missing_info_render [simp]: "get_missing_info (render w s) = get_missing_info s"
  by (rule get_missing_info_cong) simp

lemma get_missing_info_append [simp]: "get_missing_info (append_message r t s) = get_missing_info s"
  by (rule get_missing_info_cong) simp

lemma render_notices:
  "messages (render w (s\<lparr>notices := n\<rparr>)) = messages (render w s)"
  "llm_calls (render w (s\<lparr>notices := n\<rparr>)) = llm_calls (render w s)"
  "technical_questions (render w s) = technical_questions s"
  by (simp_all add: render_def Let_def split_def)

lemma page_fields [simp]:
  "messages (page w s) = messages (render w s)"
  "candidate_data (page w s) = candidate_data s"
  "stage (page w s) = stage s"
  "tech_questions_asked (page w s) = tech_questions_asked s"
  "conversation_active (page w s) = conversation_active s"
  "technical_questions (page w s) = technical_questions s"
  "disk (page w s) = disk s"
  "llm_calls (page w s) = llm_calls (render w s)"
  by (simp_all add: page_def Let_def render_notices)

lemma get_missing_info_page [simp]: "get_missing_info (page w s) = get_missing_info s"
  by (rule get_missing_info_cong) simp

subsection \<open>What every reachable state of \<^verbatim>\<open>app.py\<close> satisfies\<close>

lemma answers_ok_append:
  assumes "answers_ok s"
    and "tech_questions_asked t = tech_questions_asked s + 1"
    and "technical_answers (candidate_data t) = technical_answers (candidate_data s) @ [qa]"
    and "question_number qa = tech_questions_asked s + 1"
  shows "answers_ok t"
  using assms by (simp add: answers_ok_def)

lemma answers_ok_same:
  assumes "answers_ok s"
    and "tech_questions_asked t = tech_questions_asked s"
    and "technical_answers (candidate_data t) = technical_answers (candidate_data s)"
  shows "answers_ok t"
  using assms by (simp add: answers_ok_def)

lemma inv_app_init: "inv_app init_state"
  by (simp add: inv_app_def init_state_def answers_ok_def filled_upto_def)

lemma inv_app_farewell: "inv_app s \<Longrightarrow> inv_app (say_farewell w s)"
  unfolding inv_app_def
  by (auto intro: answers_ok_same)

lemma missing_first:
  "filled_upto 0 (candidate_data s) \<Longrightarrow> get_missing_info s = Some Name"
  using filled_upto_find [of 0 "candidate_data s"]
  by (simp add: get_missing_info_def required_fields_eq) (simp add: FIELD_ORDER_def)

lemma inv_app_greeting:
  assumes "inv_app s" "stage s = Greeting"
  shows "inv_app (stage_greeting w s)"
proof -
  have m: "get_missing_info s = Some Name"
    using assms by (simp add: inv_app_def missing_first)
  have g: "get_missing_info (stage_greeting w s) = Some Name"
    using m get_missing_info_cong [of "stage_greeting w s" s] by simp
  have a: "answers_ok (stage_greeting w s)"
    using assms by (auto simp: inv_app_def intro: answers_ok_same)
  show ?thesis
    using assms a g m unfolding inv_app_def
    by (simp add: greeting_calls asks_for_def fmt_def)
qed

lemma filled_upto_missing:
  assumes "filled_upto k (candidate_data s)" "get_missing_info s = Some missing"
  shows "k < 7 \<and> missing = FIELD_ORDER ! k"
proof -
  have "k < 7"
  proof (rule ccontr)
    assume "\<not> k < 7"
    then have "get_missing_info s = None"
      using assms(1) filled_upto_find_none [of k "candidate_data s"]
      by (simp add: get_missing_info_def required_fields_eq)
    then show False using assms(2) by simp
  qed
  then show ?thesis
    using assms filled_upto_find [of k "candidate_data s"]
    by (simp add: get_missing_info_def required_fields_eq)
qed

lemma inv_app_collect:
  assumes "inv_app s" "stage s = Collect_info"
  shows "inv_app (stage_collect_info w u s)"
proof -
  let ?t = "stage_collect_info w u s"
  obtain k where k: "filled_upto k (candidate_data s)"
    using assms(1) by (auto simp: inv_app_def)
  obtain missing where m: "get_missing_info s = Some missing"
    using assms by (auto simp: inv_app_def)
  let ?v = "extract_info_from_response u missing"
  let ?s1 = "set_info missing ?v s"
  have km: "k < 7" "missing = FIELD_ORDER ! k"
    using filled_upto_missing [OF k m] by simp_all
  have i: "info (candidate_data ?t) = (info (candidate_data s))(missing := Some ?v)"
    using m by (simp add: collect_info)
  have "filled_upto (Suc k) ((candidate_data s)\<lparr>info := (info (candidate_data s))(FIELD_ORDER ! k := Some ?v)\<rparr>)"
    using k km by (intro filled_upto_step) simp_all
  then have f1: "filled_upto (Suc k) (candidate_data ?s1)"
    using km by (simp add: filled_upto_def)
  have f: "filled_upto (Suc k) (candidate_data ?t)"
    using f1 i by (simp add: filled_upto_def)
  have a: "answers_ok ?t"
    using assms by (auto simp: inv_app_def intro: answers_ok_same)
  have gt: "get_missing_info ?t = get_missing_info ?s1"
    by (rule get_missing_info_cong) (simp add: i)
  show ?thesis
  proof (cases "get_missing_info ?s1")
    case None
    then have "stage ?t = Technical_questions"
      using m by (simp add: collect_stage)
    then show ?thesis
      using assms a f unfolding inv_app_def
      by (auto simp: collect_messages)
  next
    case (Some next_missing)
    then have st: "stage ?t = Collect_info"
      using m assms(2) by (simp add: collect_stage)
    have c: "llm_calls ?t \<noteq> []" "asks_for next_missing (fst (last (llm_calls ?t)))"
      using collect_calls [OF m Some, of w]
      by (simp_all add: asks_for_def suffix_def)
    show ?thesis
      using assms a f st c gt Some unfolding inv_app_def
      by (auto simp: collect_messages)
  qed
qed

lemma inv_app_technical:
  assumes "inv_app s" "stage s = Technical_questions"
  shows "inv_app (stage_technical_questions w u s)"
proof -
  let ?t = "stage_technical_questions w u s"
  have a: "answers_ok ?t"
    using assms by (auto simp: inv_app_def intro: answers_ok_append)
  obtain k where k: "filled_upto k (candidate_data s)"
    using assms(1) by (auto simp: inv_app_def)
  have f: "filled_upto k (candidate_data ?t)"
    using k by (simp add: filled_upto_def)
  show ?thesis
    using assms a f unfolding inv_app_def
    by (auto simp: technical_stage technical_active)
qed

lemma inv_app_process: "inv_app s \<Longrightarrow> inv_app (process_user_input w u s)"
  by (cases "stage s")
     (simp_all add: process_user_input_def inv_app_farewell inv_app_greeting inv_app_collect inv_app_technical)

lemma inv_app_user_message: "inv_app s \<Longrightarrow> inv_app (append_message User u s)"
  unfolding inv_app_def
  by (auto intro: answers_ok_same)

lemma inv_app_render: "inv_app s \<Longrightarrow> inv_app (render w s)"
proof (cases "messages s = []")
  case True
  assume i: "inv_app s"
  then have g: "stage s = Greeting"
    using True by (auto simp: inv_app_def)
  have a: "answers_ok (render w s)"
    using i by (auto simp: inv_app_def intro: answers_ok_same)
  show ?thesis
    using i g a unfolding inv_app_def by simp
next
  case False
  assume "inv_app s"
  then show ?thesis using False by (simp add: render_idle)
qed

lemma inv_app_notices: "inv_app (s\<lparr>notices := n\<rparr>) = inv_app s"
  by (simp add: inv_app_def answers_ok_def get_missing_info_def)

lemma inv_app_page: "inv_app s \<Longrightarrow> inv_app (page w s)"
  by (simp add: page_def Let_def inv_app_notices inv_app_render)

lemma inv_app_restart:
  "inv_app (init_state\<lparr>disk := d, llm_calls := c\<rparr>)"
  by (simp add: inv_app_def init_state_def answers_ok_def filled_upto_def)

lemma inv_app_script: "inv_app s \<Longrightarrow> inv_app (script w ev s)"
  by (cases ev)
     (simp_all add: script_def Let_def inv_app_page inv_app_process inv_app_user_message inv_app_restart)

lemma inv_app_run: "inv_app s \<Longrightarrow> inv_app (run evs s)"
  by (induction evs arbitrary: s) (auto simp: inv_app_script)

lemma inv_app_reachable: "inv_app (run evs init_state)"
  by (simp add: inv_app_run inv_app_init)

subsection \<open>Steps of \<^verbatim>\<open>app_grok.py\<close>\<close>

lemma last_user_text_append:
  "last_user_text (xs @ ys) =
     (case last_user_text ys of Some text \<Rightarrow> Some text | None \<Rightarrow> last_user_text xs)"
  by (induction xs) (auto split: option.splits)

lemma grok_fields_append_message [simp]:
  "current_field_index (append_message r t s) = current_field_index s"
  "greeted (append_message r t s) = greeted s"
  "last_user_message (append_message r t s) = last_user_message s"
  by (simp_all add: append_message_def)

lemma grok_fields_set_info [simp]:
  "current_field_index (set_info f t s) = current_field_index s"
  "greeted (set_info f t s) = greeted s"
  "last_user_message (set_info f t s) = last_user_message s"
  by (simp_all add: set_info_def)

lemma grok_fields_append_answer [simp]:
  "current_field_index (append_answer qa s) = current_field_index s"
  "greeted (append_answer qa s) = greeted s"
  "last_user_message (append_answer qa s) = last_user_message s"
  by (simp_all add: append_answer_def)

lemma ask_groq_fst [simp]: "fst (ask_groq w p sp s) = fst (call_groq_api w p sp)"
  by (simp add: ask_groq_def)

lemma ask_groq_snd [simp]: "snd (ask_groq w p sp s) = s\<lparr>llm_calls := llm_calls s @ [(p, sp)]\<rparr>"
  by (simp add: ask_groq_def)

lemma save_grok_fst: "fst (save_candidate_data_grok w s) = save_message w (candidate_data s)"
  using write_file_fst [of w "saved_path w (candidate_data s)" "json_dump (candidate_data s)" "disk s"]
  by (simp add: save_candidate_data_grok_def save_message_def save_failure_def saved_path_def
        saved_file_def saved_name_def Let_def split_def split: option.split)

lemma save_grok_snd:
  "snd (save_candidate_data_grok w s) =
     s\<lparr>disk := files_after_save_grok w (candidate_data s) (disk s)\<rparr>"
  by (simp add: save_candidate_data_grok_def files_after_save_grok_def saved_path_def
        saved_file_def saved_name_def Let_def split_def split: option.split)

lemma save_grok_fields [simp]:
  "messages (snd (save_candidate_data_grok w s)) = messages s"
  "candidate_data (snd (save_candidate_data_grok w s)) = candidate_data s"
  "stage (snd (save_candidate_data_grok w s)) = stage s"
  "tech_questions_asked (snd (save_candidate_data_grok w s)) = tech_questions_asked s"
  "conversation_active (snd (save_candidate_data_grok w s)) = conversation_active s"
  "technical_questions (snd (save_candidate_data_grok w s)) = technical_questions s"
  "llm_calls (snd (save_candidate_data_grok w s)) = llm_calls s"
  "notices (snd (save_candidate_data_grok w s)) = notices s"
  "current_field_index (snd (save_candidate_data_grok w s)) = current_field_index s"
  "greeted (snd (save_candidate_data_grok w s)) = greeted s"
  "last_user_message (snd (save_candidate_data_grok w s)) = last_user_message s"
  by (simp_all add: save_grok_snd)

lemma save_grok_disk:
  "disk (snd (save_candidate_data_grok w s)) = files_after_save_grok w (candidate_data s) (disk s)"
  by (simp add: save_grok_snd)

lemma ask_next_fields [simp]:
  "candidate_data (ask_next_info_field w b s) = candidate_data s"
  "tech_questions_asked (ask_next_info_field w b s) = tech_questions_asked s"
  "conversation_active (ask_next_info_field w b s) = conversation_active s"
  "disk (ask_next_info_field w b s) = disk s"
  "notices (ask_next_info_field w b s) = notices s"
  "current_field_index (ask_next_info_field w b s) = current_field_index s"
  "greeted (ask_next_info_field w b s) = greeted s"
  "last_user_message (ask_next_info_field w b s) = last_user_message s"
  "last_user_text (messages (ask_next_info_field w b s)) = last_user_text (messages s)"
  by (simp_all add: ask_next_info_field_def generate_technical_questions_grok_def Let_def split_def
        last_user_text_append)

lemma ask_next_stage:
  "stage (ask_next_info_field w b s) =
     (if current_field_index s < 7 then stage s else Technical_questions)"
  by (simp add: ask_next_info_field_def generate_technical_questions_grok_def Let_def split_def)

lemma ask_next_calls:
  "current_field_index s < 7 \<Longrightarrow>
   llm_calls (ask_next_info_field w b s) = llm_calls s @
     [(if b then ''Ask for their '' @ FIELD_PROMPTS (FIELD_ORDER ! current_field_index s) @ ''. One short question.''
       else ''Thank them briefly. Then ask for their '' @ FIELD_PROMPTS (FIELD_ORDER ! current_field_index s) @ ''. Keep short.'',
       SYSTEM_PROMPTS_grok T_collect_info)]"
  by (simp add: ask_next_info_field_def Let_def split_def)

lemma ask_next_asks:
  "current_field_index s < 7 \<Longrightarrow>
   llm_calls (ask_next_info_field w b s) \<noteq> []
   \<and> asks_for_grok (FIELD_ORDER ! current_field_index s) (fst (last (llm_calls (ask_next_info_field w b s))))"
  by (simp add: ask_next_calls asks_for_grok_def)


lemma top_idle: "stage s \<noteq> Greeting \<Longrightarrow> top_of_script w s = s"
  by (simp add: top_of_script_def)

lemma top_greeted: "greeted s \<Longrightarrow> top_of_script w s = s"
  by (simp add: top_of_script_def handle_greeting_stage_def)

lemma top_fields [simp]:
  "candidate_data (top_of_script w s) = candidate_data s"
  "tech_questions_asked (top_of_script w s) = tech_questions_asked s"
  "conversation_active (top_of_script w s) = conversation_active s"
  "disk (top_of_script w s) = disk s"
  "notices (top_of_script w s) = notices s"
  "current_field_index (top_of_script w s) = current_field_index s"
  "last_user_message (top_of_script w s) = last_user_message s"
  "last_user_text (messages (top_of_script w s)) = last_user_text (messages s)"
  by (simp_all add: top_of_script_def handle_greeting_stage_def Let_def split_def last_user_text_append)

lemma top_stage:
  "stage (top_of_script w s) =
     (if stage s = Greeting \<and> \<not> greeted s
      then (if current_field_index s < 7 then Collect_info else Technical_questions)
      else stage s)"
  by (simp add: top_of_script_def handle_greeting_stage_def Let_def split_def ask_next_stage)

lemma top_greeted_after:
  "greeted (top_of_script w s) = (greeted s \<or> stage s = Greeting)"
  by (simp add: top_of_script_def handle_greeting_stage_def Let_def split_def)

lemma top_asks:
  assumes "stage s = Greeting" "\<not> greeted s" "current_field_index s < 7"
  shows "llm_calls (top_of_script w s) \<noteq> []
     \<and> asks_for_grok (FIELD_ORDER ! current_field_index s) (fst (last (llm_calls (top_of_script w s))))"
  using assms
    ask_next_asks [of "(append_message Assistant
        (fst (call_groq_api w ''Greet the candidate for a hiring interview'' (SYSTEM_PROMPTS_grok T_greeting)))
        (s\<lparr>llm_calls := llm_calls s @ [(''Greet the candidate for a hiring interview'', SYSTEM_PROMPTS_grok T_greeting)]\<rparr>))
        \<lparr>greeted := True, stage := Collect_info\<rparr>" w True]
  by (simp add: top_of_script_def handle_greeting_stage_def Let_def split_def)

lemma info_step_fields [simp]:
  "tech_questions_asked (process_user_input_info w u s) = tech_questions_asked s"
  "technical_answers (candidate_data (process_user_input_info w u s)) = technical_answers (candidate_data s)"
  "conversation_active (process_user_input_info w u s) = conversation_active s"
  "disk (process_user_input_info w u s) = disk s"
  "notices (process_user_input_info w u s) = notices s"
  "greeted (process_user_input_info w u s) = greeted s"
  "last_user_message (process_user_input_info w u s) = last_user_message s"
  "last_user_text (messages (process_user_input_info w u s)) = last_user_text (messages s)"
  by (simp_all add: process_user_input_info_def Let_def)

lemma info_step_info:
  "info (candidate_data (process_user_input_info w u s)) =
     (if current_field_index s < 7
      then (info (candidate_data s))(FIELD_ORDER ! current_field_index s := Some (str_strip u))
      else info (candidate_data s))"
  by (simp add: process_user_input_info_def Let_def)

lemma info_step_index:
  "current_field_index (process_user_input_info w u s) =
     (if current_field_index s < 7 then current_field_index s + 1 else current_field_index s)"
  by (simp add: process_user_input_info_def Let_def)

lemma info_step_stage:
  "stage (process_user_input_info w u s) =
     (if current_field_index s + 1 < 7 then stage s else Technical_questions)"
  by (simp add: process_user_input_info_def Let_def ask_next_stage)

lemma info_step_asks:
  assumes "current_field_index s + 1 < 7"
  shows "llm_calls (process_user_input_info w u s) \<noteq> []
     \<and> asks_for_grok (FIELD_ORDER ! (current_field_index s + 1))
          (fst (last (llm_calls (process_user_input_info w u s))))"
  using assms
    ask_next_asks [of "(set_info (FIELD_ORDER ! current_field_index s) (str_strip u) s)
        \<lparr>current_field_index := current_field_index s + 1\<rparr>" w False]
  by (simp add: process_user_input_info_def Let_def)

lemma technical_step_fields [simp]:
  "info (candidate_data (process_user_input_technical w u s)) = info (candidate_data s)"
  "technical_answers (candidate_data (process_user_input_technical w u s)) =
     technical_answers (candidate_data s) @
       [\<lparr>question_number = tech_questions_asked s + 1, answer = u, timestamp = now_iso w\<rparr>]"
  "tech_questions_asked (process_user_input_technical w u s) = tech_questions_asked s + 1"
  "stage (process_user_input_technical w u s) = stage s"
  "notices (process_user_input_technical w u s) = notices s"
  "current_field_index (process_user_input_technical w u s) = current_field_index s"
  "greeted (process_user_input_technical w u s) = greeted s"
  "last_user_message (process_user_input_technical w u s) = last_user_message s"
  "last_user_text (messages (process_user_input_technical w u s)) = last_user_text (messages s)"
  by (simp_all add: process_user_input_technical_def Let_def split_def last_user_text_append)

lemma technical_step_active:
  "conversation_active (process_user_input_technical w u s) =
     (if tech_questions_asked s + 1 < 5 then conversation_active s else False)"
  by (simp add: process_user_input_technical_def Let_def split_def)

lemma exit_fields [simp]:
  "candidate_data (exit_branch w s) = candidate_data s"
  "stage (exit_branch w s) = stage s"
  "tech_questions_asked (exit_branch w s) = tech_questions_asked s"
  "conversation_active (exit_branch w s) = False"
  "notices (exit_branch w s) = notices s"
  "current_field_index (exit_branch w s) = current_field_index s"
  "greeted (exit_branch w s) = greeted s"
  "last_user_message (exit_branch w s) = last_user_message s"
  "last_user_text (messages (exit_branch w s)) = last_user_text (messages s)"
  by (simp_all add: exit_branch_def Let_def split_def last_user_text_append)

lemma top_notices: "top_of_script w (s\<lparr>notices := n\<rparr>) = (top_of_script w s)\<lparr>notices := n\<rparr>"
  by (simp add: top_of_script_def handle_greeting_stage_def ask_next_info_field_def
        generate_technical_questions_grok_def ask_groq_def append_message_def Let_def split_def)

lemma page_grok_fields [simp]:
  "messages (page_grok w s) = messages (top_of_script w s)"
  "candidate_data (page_grok w s) = candidate_data s"
  "stage (page_grok w s) = stage (top_of_script w s)"
  "tech_questions_asked (page_grok w s) = tech_questions_asked s"
  "conversation_active (page_grok w s) = conversation_active s"
  "technical_questions (page_grok w s) = technical_questions (top_of_script w s)"
  "disk (page_grok w s) = disk s"
  "llm_calls (page_grok w s) = llm_calls (top_of_script w s)"
  "current_field_index (page_grok w s) = current_field_index s"
  "greeted (page_grok w s) = greeted (top_of_script w s)"
  "last_user_message (page_grok w s) = last_user_message s"
  by (simp_all add: page_grok_def Let_def top_notices)

lemma page_grok_notices:
  "notices (page_grok w s) =
     (if conversation_active s then [] else [Info (briefcase @ '' Interview completed! Thank you.'')])"
  by (simp add: page_grok_def Let_def top_notices)

subsection \<open>What every reachable state of \<^verbatim>\<open>app_grok.py\<close> satisfies\<close>

lemma inv_grok_init: "inv_grok init_grok"
  by (simp add: inv_grok_def init_grok_def answers_ok_def filled_upto_def)

lemma inv_grok_top:
  assumes "inv_grok s"
  shows "inv_grok (top_of_script w s)"
proof (cases "stage s = Greeting")
  case False
  then show ?thesis using assms by (simp add: top_idle)
next
  case True
  then have g: "\<not> greeted s" "current_field_index s = 0" "last_user_message s = None"
    using assms by (simp_all add: inv_grok_def)
  have a: "answers_ok (top_of_script w s)"
    using assms by (auto simp: inv_grok_def intro: answers_ok_same)
  have q: "llm_calls (top_of_script w s) \<noteq> []
     \<and> asks_for_grok (FIELD_ORDER ! 0) (fst (last (llm_calls (top_of_script w s))))"
    using top_asks [of s w] True g by simp
  show ?thesis
    using assms a q True g unfolding inv_grok_def
    by (simp add: top_stage)
qed

lemma answers_ok_notices: "answers_ok (s\<lparr>notices := n\<rparr>) = answers_ok s"
  by (simp add: answers_ok_def)

lemma inv_grok_notices: "inv_grok s \<Longrightarrow> inv_grok (s\<lparr>notices := n\<rparr>)"
  by (auto simp: inv_grok_def answers_ok_notices)

lemma inv_grok_page: "inv_grok s \<Longrightarrow> inv_grok (page_grok w s)"
  by (simp add: page_grok_def Let_def top_notices inv_grok_notices inv_grok_top)

lemma inv_grok_exit:
  assumes "inv_grok s" "stage s \<noteq> Greeting"
  shows "inv_grok (exit_branch w (append_message User (Some raw) (s\<lparr>last_user_message := Some raw\<rparr>)))"
proof -
  let ?t = "exit_branch w (append_message User (Some raw) (s\<lparr>last_user_message := Some raw\<rparr>))"
  have a: "answers_ok ?t"
    using assms by (auto simp: inv_grok_def intro: answers_ok_same)
  show ?thesis
    using assms a unfolding inv_grok_def
    by (simp add: last_user_text_append)
qed

lemma inv_grok_info_step:
  assumes "inv_grok s" "stage s = Collect_info" "conversation_active s"
    and "\<not> any_keyword_in exit_words (str_lower raw)"
  shows "inv_grok (process_user_input_info w raw (append_message User (Some raw) (s\<lparr>last_user_message := Some raw\<rparr>)))"
proof -
  let ?s2 = "append_message User (Some raw) (s\<lparr>last_user_message := Some raw\<rparr>)"
  let ?t = "process_user_input_info w raw ?s2"
  have k: "current_field_index s < 7" "filled_upto (current_field_index s) (candidate_data s)"
    using assms by (simp_all add: inv_grok_def)
  have a: "answers_ok ?t"
    using assms by (auto simp: inv_grok_def intro: answers_ok_same)
  have "filled_upto (Suc (current_field_index s))
      ((candidate_data s)\<lparr>info := (info (candidate_data s))(FIELD_ORDER ! current_field_index s := Some (str_strip raw))\<rparr>)"
    using k by (intro filled_upto_step) simp_all
  then have f: "filled_upto (Suc (current_field_index s)) (candidate_data ?t)"
    using k by (simp add: filled_upto_def info_step_info)
  have q: "current_field_index s + 1 < 7 \<Longrightarrow>
      llm_calls ?t \<noteq> [] \<and> asks_for_grok (FIELD_ORDER ! (current_field_index s + 1)) (fst (last (llm_calls ?t)))"
    using info_step_asks [of ?s2 w raw] by simp
  show ?thesis
    using assms a f k q unfolding inv_grok_def
    by (simp add: info_step_index info_step_stage last_user_text_append)
qed

lemma inv_grok_technical_step:
  assumes "inv_grok s" "stage s = Technical_questions" "conversation_active s"
    and "\<not> any_keyword_in exit_words (str_lower raw)"
  shows "inv_grok (process_user_input_technical w raw (append_message User (Some raw) (s\<lparr>last_user_message := Some raw\<rparr>)))"
proof -
  let ?s2 = "append_message User (Some raw) (s\<lparr>last_user_message := Some raw\<rparr>)"
  let ?t = "process_user_input_technical w raw ?s2"
  have a: "answers_ok ?t"
    using assms by (auto simp: inv_grok_def intro: answers_ok_append)
  have f: "filled_upto (current_field_index s) (candidate_data ?t)"
    using assms by (simp add: inv_grok_def filled_upto_def)
  show ?thesis
    using assms a f unfolding inv_grok_def
    by (simp add: technical_step_active last_user_text_append)
qed

lemma inv_grok_submit:
  assumes "inv_grok s" "stage s \<noteq> Greeting" "conversation_active s"
  shows "inv_grok (on_submit w u s)"
proof -
  have st: "stage s = Collect_info \<or> stage s = Technical_questions"
    using assms by (cases "stage s") (simp_all add: inv_grok_def)
  let ?raw = "str_strip u"
  let ?s2 = "append_message User (Some ?raw) (s\<lparr>last_user_message := Some ?raw\<rparr>)"
  have e: "inv_grok (page_grok w (exit_branch w ?s2))"
    using assms by (simp add: inv_grok_page inv_grok_exit)
  have r: "\<not> any_keyword_in exit_words (str_lower ?raw) \<Longrightarrow> inv_grok (page_grok w (route_by_stage w ?raw ?s2))"
    using st assms
    by (auto simp: route_by_stage_def intro!: inv_grok_page inv_grok_info_step inv_grok_technical_step)
  show ?thesis
    using assms e r by (simp add: on_submit_def Let_def inv_grok_notices)
qed

lemma inv_grok_reset: "inv_grok (reset_grok s)"
  by (simp add: inv_grok_def reset_grok_def answers_ok_def filled_upto_def)

lemma top_not_greeting: "inv_grok s \<Longrightarrow> stage (top_of_script w s) \<noteq> Greeting"
  by (simp add: top_stage inv_grok_def)

lemma inv_grok_script: "inv_grok s \<Longrightarrow> inv_grok (script_grok w ev s)"
  by (cases ev)
     (simp_all add: script_grok_def Let_def inv_grok_page inv_grok_submit inv_grok_reset top_not_greeting)

lemma inv_grok_run: "inv_grok s \<Longrightarrow> inv_grok (run_grok evs s)"
  by (induction evs arbitrary: s) (auto simp: inv_grok_script)

lemma inv_grok_reachable: "inv_grok (run_grok evs init_grok)"
  by (simp add: inv_grok_run inv_grok_init)

subsection \<open>Stages and fields along a session\<close>

lemma no_restart_Cons: "no_restart ((w, ev) # evs) = (ev \<noteq> Restart \<and> no_restart evs)"
  by (simp add: no_restart_def)

lemma process_exit:
  "any_keyword_in exit_keywords (str_strip (str_lower u)) \<Longrightarrow> process_user_input w u s = say_farewell w s"
  by (simp add: process_user_input_def)

lemma process_route:
  "\<not> any_keyword_in exit_keywords (str_strip (str_lower u)) \<Longrightarrow>
   process_user_input w u s =
     (case stage s of
        Greeting \<Rightarrow> stage_greeting w s
      | Collect_info \<Rightarrow> stage_collect_info w u s
      | Technical_questions \<Rightarrow> stage_technical_questions w u s
      | Farewell \<Rightarrow> s)"
  by (simp add: process_user_input_def)

lemma process_stage_rank: "stage_rank (stage s) \<le> stage_rank (stage (process_user_input w u s))"
proof (cases "any_keyword_in exit_keywords (str_strip (str_lower u))")
  case True
  then show ?thesis by (cases "stage s") (simp_all add: process_exit)
next
  case False
  then show ?thesis
    by (cases "stage s") (simp_all add: process_route collect_stage technical_stage split: option.split)
qed

lemma process_info_frozen:
  "2 \<le> stage_rank (stage s) \<Longrightarrow> info (candidate_data (process_user_input w u s)) = info (candidate_data s)"
  by (cases "any_keyword_in exit_keywords (str_strip (str_lower u))"; cases "stage s")
     (simp_all add: process_exit process_route)

lemma process_info_kept:
  assumes "info (candidate_data s) field = Some text"
  shows "info (candidate_data (process_user_input w u s)) field = Some text"
proof (cases "any_keyword_in exit_keywords (str_strip (str_lower u))")
  case True
  then show ?thesis using assms by (simp add: process_exit)
next
  case False
  show ?thesis
  proof (cases "stage s")
    case Collect_info
    then show ?thesis
      using assms False get_missing_info_Some [of s]
      by (auto simp: process_route collect_info split: option.split)
  qed (use assms False in \<open>simp_all add: process_route\<close>)
qed

lemma script_no_restart:
  "ev \<noteq> Restart \<Longrightarrow>
   script w ev s = page w s
   \<or> (\<exists>u. script w ev s = page w (process_user_input w u (append_message User (Some u) (page w s))))"
  by (cases ev) (auto simp: script_def Let_def)

lemma script_stage_rank:
  assumes "ev \<noteq> Restart"
  shows "stage_rank (stage s) \<le> stage_rank (stage (script w ev s))"
  using script_no_restart [OF assms, of w s]
proof
  assume "script w ev s = page w s"
  then show ?thesis by simp
next
  assume "\<exists>u. script w ev s = page w (process_user_input w u (append_message User (Some u) (page w s)))"
  then obtain u where "script w ev s = page w (process_user_input w u (append_message User (Some u) (page w s)))" ..
  then show ?thesis
    using process_stage_rank [of "append_message User (Some u) (page w s)" w u] by simp
qed

lemma script_info_frozen:
  assumes "ev \<noteq> Restart" "2 \<le> stage_rank (stage s)"
  shows "info (candidate_data (script w ev s)) = info (candidate_data s)"
  using script_no_restart [OF assms(1), of w s]
proof
  assume "script w ev s = page w s"
  then show ?thesis by simp
next
  assume "\<exists>u. script w ev s = page w (process_user_input w u (append_message User (Some u) (page w s)))"
  then obtain u where "script w ev s = page w (process_user_input w u (append_message User (Some u) (page w s)))" ..
  then show ?thesis
    using process_info_frozen [of "append_message User (Some u) (page w s)" w u] assms(2) by simp
qed

lemma script_info_kept:
  assumes "ev \<noteq> Restart" "info (candidate_data s) field = Some text"
  shows "info (candidate_data (script w ev s)) field = Some text"
  using script_no_restart [OF assms(1), of w s]
proof
  assume "script w ev s = page w s"
  then show ?thesis using assms(2) by simp
next
  assume "\<exists>u. script w ev s = page w (process_user_input w u (append_message User (Some u) (page w s)))"
  then obtain u where "script w ev s = page w (process_user_input w u (append_message User (Some u) (page w s)))" ..
  then show ?thesis
    using process_info_kept [of "append_message User (Some u) (page w s)" "field" "text" w u] assms(2) by simp
qed

lemma run_stage_rank: "no_restart evs \<Longrightarrow> stage_rank (stage s) \<le> stage_rank (stage (run evs s))"
proof (induction evs arbitrary: s)
  case Nil
  then show ?case by simp
next
  case (Cons a evs)
  obtain w ev where a: "a = (w, ev)" by (cases a)
  have "stage_rank (stage s) \<le> stage_rank (stage (script w ev s))"
    using Cons.prems a by (simp add: no_restart_Cons script_stage_rank)
  also have "\<dots> \<le> stage_rank (stage (run evs (script w ev s)))"
    using Cons a by (simp add: no_restart_Cons)
  finally show ?case using a by simp
qed

lemma run_info_frozen:
  "no_restart evs \<Longrightarrow> 2 \<le> stage_rank (stage s) \<Longrightarrow>
   info (candidate_data (run evs s)) = info (candidate_data s)"
proof (induction evs arbitrary: s)
  case Nil
  then show ?case by simp
next
  case (Cons a evs)
  obtain w ev where a: "a = (w, ev)" by (cases a)
  have r: "ev \<noteq> Restart" "no_restart evs"
    using Cons.prems a by (simp_all add: no_restart_Cons)
  have "2 \<le> stage_rank (stage (script w ev s))"
    using script_stage_rank [OF r(1), of s w] Cons.prems(2) by simp
  then have "info (candidate_data (run evs (script w ev s))) = info (candidate_data (script w ev s))"
    using Cons.IH r by simp
  then show ?case
    using a r Cons.prems(2) by (simp add: script_info_frozen)
qed

lemma run_info_kept:
  "no_restart evs \<Longrightarrow> info (candidate_data s) field = Some text \<Longrightarrow>
   info (candidate_data (run evs s)) field = Some text"
proof (induction evs arbitrary: s)
  case Nil
  then show ?case by simp
next
  case (Cons a evs)
  obtain w ev where a: "a = (w, ev)" by (cases a)
  show ?case
    using Cons a by (simp add: no_restart_Cons script_info_kept)
qed


lemma on_submit_cases:
  "on_submit w u s = s\<lparr>notices := notices s @ [Warning ''Please type something before sending.'']\<rparr>
   \<or> on_submit w u s = s\<lparr>notices := notices s @ [Info (''Duplicate message detected '' @ em_dash @ '' ignored.'')]\<rparr>
   \<or> on_submit w u s =
        page_grok w (exit_branch w (append_message User (Some (str_strip u)) (s\<lparr>last_user_message := Some (str_strip u)\<rparr>)))
   \<or> on_submit w u s =
        page_grok w (route_by_stage w (str_strip u)
          (append_message User (Some (str_strip u)) (s\<lparr>last_user_message := Some (str_strip u)\<rparr>)))"
  by (simp add: on_submit_def Let_def)

lemma route_stage_rank: "stage_rank (stage s) \<le> stage_rank (stage (route_by_stage w raw s))"
  by (cases "stage s") (simp_all add: route_by_stage_def info_step_stage)

lemma route_info_frozen:
  "2 \<le> stage_rank (stage s) \<Longrightarrow> info (candidate_data (route_by_stage w raw s)) = info (candidate_data s)"
  by (cases "stage s") (simp_all add: route_by_stage_def)

lemma top_stage_rank: "stage_rank (stage s) \<le> stage_rank (stage (top_of_script w s))"
  by (cases "stage s") (simp_all add: top_stage)

lemma page_grok_stage_rank: "stage_rank (stage s) \<le> stage_rank (stage (page_grok w s))"
  by (simp add: top_stage_rank)

lemma on_submit_stage_rank: "stage_rank (stage s) \<le> stage_rank (stage (on_submit w u s))"
proof -
  let ?s2 = "append_message User (Some (str_strip u)) (s\<lparr>last_user_message := Some (str_strip u)\<rparr>)"
  have e: "stage_rank (stage s) \<le> stage_rank (stage (page_grok w (exit_branch w ?s2)))"
    using top_stage_rank [of "exit_branch w ?s2" w] by simp
  have "stage_rank (stage s) \<le> stage_rank (stage (route_by_stage w (str_strip u) ?s2))"
    using route_stage_rank [of ?s2 w "str_strip u"] by simp
  also have "\<dots> \<le> stage_rank (stage (page_grok w (route_by_stage w (str_strip u) ?s2)))"
    by (rule page_grok_stage_rank)
  finally show ?thesis
    using on_submit_cases [of w u s] e by auto
qed

lemma on_submit_info_frozen:
  assumes "2 \<le> stage_rank (stage s)"
  shows "info (candidate_data (on_submit w u s)) = info (candidate_data s)"
proof -
  let ?s2 = "append_message User (Some (str_strip u)) (s\<lparr>last_user_message := Some (str_strip u)\<rparr>)"
  have "info (candidate_data (route_by_stage w (str_strip u) ?s2)) = info (candidate_data s)"
    using route_info_frozen [of ?s2 w "str_strip u"] assms by simp
  then show ?thesis
    using on_submit_cases [of w u s] by auto
qed

lemma script_grok_no_restart:
  "ev \<noteq> Restart \<Longrightarrow>
   script_grok w ev s = page_grok w s \<or> (\<exists>u. script_grok w ev s = on_submit w u (page_grok w s))"
  by (cases ev) (auto simp: script_grok_def Let_def)

lemma script_grok_stage_rank:
  assumes "ev \<noteq> Restart"
  shows "stage_rank (stage s) \<le> stage_rank (stage (script_grok w ev s))"
  using script_grok_no_restart [OF assms, of w s]
proof
  assume "script_grok w ev s = page_grok w s"
  then show ?thesis by (simp add: top_stage_rank)
next
  assume "\<exists>u. script_grok w ev s = on_submit w u (page_grok w s)"
  then obtain u where u: "script_grok w ev s = on_submit w u (page_grok w s)" ..
  have "stage_rank (stage s) \<le> stage_rank (stage (page_grok w s))"
    by (rule page_grok_stage_rank)
  also have "\<dots> \<le> stage_rank (stage (on_submit w u (page_grok w s)))"
    by (rule on_submit_stage_rank)
  finally show ?thesis using u by simp
qed

lemma script_grok_info_frozen:
  assumes "ev \<noteq> Restart" "2 \<le> stage_rank (stage s)"
  shows "info (candidate_data (script_grok w ev s)) = info (candidate_data s)"
proof -
  have "2 \<le> stage_rank (stage (page_grok w s))"
    using page_grok_stage_rank [of s w] assms(2) by simp
  then have "info (candidate_data (on_submit w u (page_grok w s))) = info (candidate_data s)" for u
    using on_submit_info_frozen [of "page_grok w s" w u] by simp
  then show ?thesis
    using script_grok_no_restart [OF assms(1), of w s] by auto
qed

lemma run_grok_stage_rank:
  "no_restart evs \<Longrightarrow> stage_rank (stage s) \<le> stage_rank (stage (run_grok evs s))"
proof (induction evs arbitrary: s)
  case Nil
  then show ?case by simp
next
  case (Cons a evs)
  obtain w ev where a: "a = (w, ev)" by (cases a)
  have "stage_rank (stage s) \<le> stage_rank (stage (script_grok w ev s))"
    using Cons.prems a by (simp add: no_restart_Cons script_grok_stage_rank)
  also have "\<dots> \<le> stage_rank (stage (run_grok evs (script_grok w ev s)))"
    using Cons a by (simp add: no_restart_Cons)
  finally show ?case using a by simp
qed

lemma run_grok_info_frozen:
  "no_restart evs \<Longrightarrow> 2 \<le> stage_rank (stage s) \<Longrightarrow>
   info (candidate_data (run_grok evs s)) = info (candidate_data s)"
proof (induction evs arbitrary: s)
  case Nil
  then show ?case by simp
next
  case (Cons a evs)
  obtain w ev where a: "a = (w, ev)" by (cases a)
  have r: "ev \<noteq> Restart" "no_restart evs"
    using Cons.prems a by (simp_all add: no_restart_Cons)
  have "2 \<le> stage_rank (stage (script_grok w ev s))"
    using script_grok_stage_rank [OF r(1), of s w] Cons.prems(2) by simp
  then have "info (candidate_data (run_grok evs (script_grok w ev s))) = info (candidate_data (script_grok w ev s))"
    using Cons.IH r by simp
  then show ?case
    using a r Cons.prems(2) by (simp add: script_grok_info_frozen)
qed

lemma filled_upto_next_none:
  assumes "filled_upto k d" "k < 7"
  shows "info d (FIELD_ORDER ! k) = None"
  using filled_upto_find [OF assms] by (auto simp: find_Some_iff)

lemma route_info_kept:
  assumes "filled_upto (current_field_index s) (candidate_data s)"
    and "info (candidate_data s) field = Some text"
  shows "info (candidate_data (route_by_stage w raw s)) field = Some text"
proof (cases "stage s = Collect_info \<and> current_field_index s < 7")
  case True
  then have "field \<noteq> FIELD_ORDER ! current_field_index s"
    using filled_upto_next_none [OF assms(1)] assms(2) by auto
  then show ?thesis
    using True assms(2) by (simp add: route_by_stage_def info_step_info)
next
  case False
  then show ?thesis
    using assms(2) by (cases "stage s") (simp_all add: route_by_stage_def info_step_info)
qed

lemma on_submit_info_kept:
  assumes "filled_upto (current_field_index s) (candidate_data s)"
    and "info (candidate_data s) field = Some text"
  shows "info (candidate_data (on_submit w u s)) field = Some text"
proof -
  let ?s2 = "append_message User (Some (str_strip u)) (s\<lparr>last_user_message := Some (str_strip u)\<rparr>)"
  have "info (candidate_data (route_by_stage w (str_strip u) ?s2)) field = Some text"
    using assms by (intro route_info_kept) simp_all
  then show ?thesis
    using on_submit_cases [of w u s] assms(2) by auto
qed

lemma script_grok_info_kept:
  assumes "inv_grok s" "ev \<noteq> Restart" "info (candidate_data s) field = Some text"
  shows "info (candidate_data (script_grok w ev s)) field = Some text"
proof -
  have f: "filled_upto (current_field_index (page_grok w s)) (candidate_data (page_grok w s))"
    using assms(1) by (simp add: inv_grok_def)
  have "info (candidate_data (on_submit w u (page_grok w s))) field = Some text" for u
    using f assms(3) by (intro on_submit_info_kept) simp_all
  then show ?thesis
    using script_grok_no_restart [OF assms(2), of w s] assms(3) by auto
qed

lemma run_grok_info_kept:
  "inv_grok s \<Longrightarrow> no_restart evs \<Longrightarrow> info (candidate_data s) field = Some text \<Longrightarrow>
   info (candidate_data (run_grok evs s)) field = Some text"
proof (induction evs arbitrary: s)
  case Nil
  then show ?case by simp
next
  case (Cons a evs)
  obtain w ev where a: "a = (w, ev)" by (cases a)
  show ?case
    using Cons a by (simp add: no_restart_Cons script_grok_info_kept inv_grok_script)
qed

subsection \<open>Evaluation on concrete sessions\<close>

lemmas eval_strings = any_keyword_in_def exit_keywords_def exit_words_def str_strip_def str_lower_def
  lower_char_def is_upper_def is_space_def is_digit_def findall_digits_def sublist_code fmt_def

lemmas eval_app = script_def page_def render_def write_file_def process_user_input_def say_farewell_def stage_greeting_def
  stage_collect_info_def stage_technical_questions_def save_candidate_data_def ask_llm_def
  append_message_def set_info_def append_answer_def generate_technical_questions_def
  get_missing_info_def required_fields_def extract_info_from_response_def
  init_state_def world0_def call_llm_def api_key_def Let_def

lemmas eval_grok = script_grok_def page_grok_def write_file_def top_of_script_def handle_greeting_stage_def ask_next_info_field_def
  process_user_input_info_def process_user_input_technical_def exit_branch_def route_by_stage_def
  on_submit_def reset_grok_def save_candidate_data_grok_def ask_groq_def generate_technical_questions_grok_def
  append_message_def set_info_def append_answer_def FIELD_ORDER_def
  init_grok_def world0_def call_groq_api_def api_key_def Let_def

lemma collected_stage: "stage (run collected init_state) = Technical_questions"
  by (simp add: collected_def interview_inputs_def eval_app eval_strings)

lemma collected_grok_stage: "stage (run_grok collected_grok init_grok) = Technical_questions"
  by (simp add: collected_grok_def interview_inputs_def eval_grok eval_strings)

lemma collected_name: "info (candidate_data (run collected init_state)) Name = Some ''Ada Lovelace''"
  by (simp add: collected_def interview_inputs_def eval_app eval_strings)

lemma collected_grok_name: "info (candidate_data (run_grok collected_grok init_grok)) Name = Some ''Ada Lovelace''"
  by (simp add: collected_grok_def interview_inputs_def eval_grok eval_strings)

lemma two_fields_facts:
  "stage (run two_fields init_state) = Collect_info"
  "info (candidate_data (run two_fields init_state)) Name = Some ''Ada Lovelace''"
  "filled (candidate_data (run two_fields init_state)) = [Name, Email]"
  by (simp_all add: two_fields_def filled_def FIELD_ORDER_def eval_app eval_strings)

lemma two_fields_grok_facts:
  "stage (run_grok two_fields_grok init_grok) = Collect_info"
  "conversation_active (run_grok two_fields_grok init_grok)"
  "info (candidate_data (run_grok two_fields_grok init_grok)) Name = Some ''Ada Lovelace''"
  "filled (candidate_data (run_grok two_fields_grok init_grok)) = [Name, Email]"
  "last_user_message (run_grok two_fields_grok init_grok) = Some ''ada@example.org''"
  by (simp_all add: two_fields_grok_def filled_def eval_grok eval_strings)

lemma phone_facts:
  "str_strip ''555 0100'' = ''555 0100''"
  "\<not> any_keyword_in exit_keywords (str_lower ''555 0100'')"
  "\<not> any_keyword_in exit_words (str_lower ''555 0100'')"
  by (simp_all add: eval_strings)

subsection \<open>Exit keywords and trimming\<close>

lemma any_keyword_strip:
  assumes "list_all (\<lambda>k. k \<noteq> [] \<and> \<not> is_space (hd k) \<and> \<not> is_space (last k)) ks"
  shows "any_keyword_in ks (str_strip t) = any_keyword_in ks t"
  using assms
  by (induction ks) (simp_all add: any_keyword_in_def sublist_strip_iff)

lemma exit_keywords_strip: "any_keyword_in exit_keywords (str_strip t) = any_keyword_in exit_keywords t"
  by (rule any_keyword_strip) (simp add: exit_keywords_def is_space_def)

lemma exit_words_strip: "any_keyword_in exit_words (str_strip t) = any_keyword_in exit_words t"
  by (rule any_keyword_strip) (simp add: exit_words_def is_space_def)

lemma exit_words_lower_strip:
  "any_keyword_in exit_words (str_lower (str_strip u)) = any_keyword_in exit_words (str_lower u)"
  by (simp add: str_lower_strip exit_words_strip)

lemma filled_upto_length: "filled_upto k d \<Longrightarrow> k \<le> 7 \<Longrightarrow> length (filled d) = k"
  by (simp add: filled_upto_filled)

lemma filled_upto_snoc:
  assumes "filled_upto k d" "k < 7" "info d' = (info d)(FIELD_ORDER ! k := Some v)"
  shows "filled d' = filled d @ [FIELD_ORDER ! k]"
proof -
  have "filled_upto (Suc k) (d\<lparr>info := (info d)(FIELD_ORDER ! k := Some v)\<rparr>)"
    using assms by (intro filled_upto_step) simp_all
  then have "filled_upto (Suc k) d'"
    using assms(3) by (simp add: filled_upto_def)
  then show ?thesis
    using assms(1,2) by (simp add: filled_upto_filled take_Suc_conv_app_nth)
qed

lemma app_collect_fills:
  assumes "inv_app s" "stage s = Collect_info" "\<not> any_keyword_in exit_keywords (str_lower u)"
  shows "filled (candidate_data (process_user_input w u s))
           = filled (candidate_data s) @ [FIELD_ORDER ! length (filled (candidate_data s))]"
proof -
  obtain k where k: "filled_upto k (candidate_data s)"
    using assms(1) by (auto simp: inv_app_def)
  obtain missing where m: "get_missing_info s = Some missing"
    using assms by (auto simp: inv_app_def)
  have km: "k < 7" "missing = FIELD_ORDER ! k"
    using filled_upto_missing [OF k m] by simp_all
  have p: "process_user_input w u s = stage_collect_info w u s"
    using assms by (simp add: process_route exit_keywords_strip)
  have "filled (candidate_data (stage_collect_info w u s)) = filled (candidate_data s) @ [FIELD_ORDER ! k]"
    using k km m by (intro filled_upto_snoc [where v = "extract_info_from_response u missing"]) (simp_all add: collect_info)
  then show ?thesis
    using p k km by (simp add: filled_upto_length)
qed

lemma app_collect_asks:
  assumes "inv_app s" "stage s = Collect_info"
  shows "get_missing_info s = Some (FIELD_ORDER ! length (filled (candidate_data s)))
     \<and> asks_for (FIELD_ORDER ! length (filled (candidate_data s))) (fst (last (llm_calls s)))"
proof -
  obtain k where k: "filled_upto k (candidate_data s)"
    using assms(1) by (auto simp: inv_app_def)
  obtain missing where m: "get_missing_info s = Some missing" "asks_for missing (fst (last (llm_calls s)))"
    using assms by (auto simp: inv_app_def)
  have km: "k < 7" "missing = FIELD_ORDER ! k"
    using filled_upto_missing [OF k m(1)] by simp_all
  show ?thesis
    using m k km by (simp add: filled_upto_length)
qed

lemma page_grok_idle:
  "stage s \<noteq> Greeting \<Longrightarrow>
   page_grok w s =
     s\<lparr>notices := (if conversation_active s then []
                    else [Info (briefcase @ '' Interview completed! Thank you.'')])\<rparr>"
  by (simp add: page_grok_def Let_def top_notices top_idle)

lemma page_grok_active:
  "stage s \<noteq> Greeting \<Longrightarrow> conversation_active s \<Longrightarrow> page_grok w s = s\<lparr>notices := []\<rparr>"
  by (simp add: page_grok_idle)

lemma grok_collect_fills:
  assumes "inv_grok s" "conversation_active s" "stage s = Collect_info"
    and "str_strip u \<noteq> []" "last_user_message s \<noteq> Some (str_strip u)"
    and "\<not> any_keyword_in exit_words (str_lower u)"
  shows "filled (candidate_data (script_grok w (Submit u) s))
           = filled (candidate_data s) @ [FIELD_ORDER ! length (filled (candidate_data s))]"
proof -
  let ?raw = "str_strip u"
  let ?s1 = "s\<lparr>notices := []\<rparr>"
  let ?s2 = "append_message User (Some ?raw) (?s1\<lparr>last_user_message := Some ?raw\<rparr>)"
  have k: "current_field_index s < 7" "filled_upto (current_field_index s) (candidate_data s)"
    using assms by (simp_all add: inv_grok_def)
  have t: "page_grok w s = ?s1"
    using assms(2,3) by (simp add: page_grok_active)
  have "script_grok w (Submit u) s = on_submit w u ?s1"
    using assms(2) t by (simp add: script_grok_def)
  also have "\<dots> = page_grok w (route_by_stage w ?raw ?s2)"
    using assms(4,5,6) by (auto simp: on_submit_def Let_def exit_words_lower_strip)
  finally have e: "candidate_data (script_grok w (Submit u) s) = candidate_data (process_user_input_info w ?raw ?s2)"
    using assms(3) by (simp add: route_by_stage_def)
  have "filled (candidate_data (process_user_input_info w ?raw ?s2))
      = filled (candidate_data s) @ [FIELD_ORDER ! current_field_index s]"
    using k by (intro filled_upto_snoc [where v = "str_strip ?raw"]) (simp_all add: info_step_info)
  then show ?thesis
    using e k by (simp add: filled_upto_length)
qed

subsection \<open>The last steps in detail\<close>

lemma technical_data:
  "candidate_data (stage_technical_questions w u s) =
     (candidate_data s)\<lparr>technical_answers := technical_answers (candidate_data s) @
        [\<lparr>question_number = tech_questions_asked s + 1, answer = u, timestamp = now_iso w\<rparr>]\<rparr>"
  by (simp add: stage_technical_questions_def Let_def split_def append_answer_def)



lemma technical_disk:
  "disk (stage_technical_questions w u s) =
     (if tech_questions_asked s + 1 < 5 then disk s
      else files_after_save w (candidate_data (stage_technical_questions w u s)) (disk s))"
  by (simp add: technical_data)
     (simp add: stage_technical_questions_def Let_def split_def farewell_disk append_answer_def)

lemma exit_messages:
  "messages (exit_branch w s) =
     messages s @
     [\<lparr>role = Assistant, content = fst (call_groq_api w ''Generate farewell'' (SYSTEM_PROMPTS_grok T_farewell))\<rparr>,
      \<lparr>role = Assistant, content = Some (save_message w (candidate_data s))\<rparr>]"
  by (simp add: exit_branch_def Let_def split_def save_grok_fst)

lemma exit_disk:
  "disk (exit_branch w s) = files_after_save_grok w (candidate_data s) (disk s)"
  by (simp add: exit_branch_def Let_def split_def save_grok_disk)

lemma exit_calls:
  "llm_calls (exit_branch w s) = llm_calls s @ [(''Generate farewell'', SYSTEM_PROMPTS_grok T_farewell)]"
  by (simp add: exit_branch_def Let_def split_def)

lemma technical_step_data:
  "candidate_data (process_user_input_technical w u s) =
     (candidate_data s)\<lparr>technical_answers := technical_answers (candidate_data s) @
        [\<lparr>question_number = tech_questions_asked s + 1, answer = u, timestamp = now_iso w\<rparr>]\<rparr>"
  by (simp add: process_user_input_technical_def Let_def split_def append_answer_def)



lemma technical_step_disk:
  "disk (process_user_input_technical w u s) =
     (if tech_questions_asked s + 1 < 5 then disk s
      else files_after_save_grok w (candidate_data (process_user_input_technical w u s)) (disk s))"
  by (simp add: technical_step_data)
     (simp add: process_user_input_technical_def Let_def split_def save_grok_disk append_answer_def)

subsection \<open>What a submission to \<^verbatim>\<open>app_grok.py\<close> does\<close>

lemma keyword_nonempty:
  "any_keyword_in exit_words t \<Longrightarrow> t \<noteq> []"
  by (auto simp: any_keyword_in_def exit_words_def)

lemma grok_submit_exit:
  assumes "inv_grok s" "conversation_active s" "any_keyword_in exit_words (str_lower u)"
  shows "script_grok w (Submit u) s =
     (exit_branch w (append_message User (Some (str_strip u))
        ((page_grok w s)\<lparr>last_user_message := Some (str_strip u)\<rparr>)))
       \<lparr>notices := [Info (briefcase @ '' Interview completed! Thank you.'')]\<rparr>"
proof -
  let ?s1 = "page_grok w s"
  let ?raw = "str_strip u"
  let ?t = "exit_branch w (append_message User (Some ?raw) (?s1\<lparr>last_user_message := Some ?raw\<rparr>))"
  have i1: "inv_grok ?s1" using assms(1) by (rule inv_grok_page)
  have k: "any_keyword_in exit_words (str_lower ?raw)"
    using assms(3) by (simp add: exit_words_lower_strip)
  then have "str_lower ?raw \<noteq> []" by (rule keyword_nonempty)
  then have b: "?raw \<noteq> []" by (auto simp: str_lower_def)
  have d: "last_user_message ?s1 \<noteq> Some ?raw"
    using i1 assms(2) k by (auto simp: inv_grok_def)
  have g: "stage ?t \<noteq> Greeting"
    using top_not_greeting [OF assms(1), of w] by simp
  have "script_grok w (Submit u) s = on_submit w u ?s1"
    using assms(2) by (simp add: script_grok_def Let_def)
  also have "\<dots> = page_grok w ?t"
    using b d k by (simp add: on_submit_def Let_def)
  also have "\<dots> = ?t\<lparr>notices := [Info (briefcase @ '' Interview completed! Thank you.'')]\<rparr>"
    using g by (simp add: page_grok_idle)
  finally show ?thesis .
qed

lemma grok_submit_route:
  assumes "inv_grok s" "conversation_active s" "str_strip u \<noteq> []"
    and "last_user_message s \<noteq> Some (str_strip u)" "\<not> any_keyword_in exit_words (str_lower u)"
  shows "\<exists>n. script_grok w (Submit u) s =
     (route_by_stage w (str_strip u)
        (append_message User (Some (str_strip u)) ((page_grok w s)\<lparr>last_user_message := Some (str_strip u)\<rparr>)))
       \<lparr>notices := n\<rparr>"
proof -
  let ?s1 = "page_grok w s"
  let ?raw = "str_strip u"
  let ?s2 = "append_message User (Some ?raw) (?s1\<lparr>last_user_message := Some ?raw\<rparr>)"
  have g: "stage ?s1 \<noteq> Greeting"
    using top_not_greeting [OF assms(1), of w] by simp
  have "stage_rank (stage ?s2) \<le> stage_rank (stage (route_by_stage w ?raw ?s2))"
    by (rule route_stage_rank)
  then have g2: "stage (route_by_stage w ?raw ?s2) \<noteq> Greeting"
    using g by (cases "stage ?s1") auto
  have "script_grok w (Submit u) s = on_submit w u ?s1"
    using assms(2) by (simp add: script_grok_def Let_def)
  also have "\<dots> = page_grok w (route_by_stage w ?raw ?s2)"
    using assms(3,4,5) by (simp add: on_submit_def Let_def exit_words_lower_strip)
  finally show ?thesis
    using page_grok_idle [OF g2, of w] by auto
qed

lemma grok_submit_ignored:
  assumes "conversation_active s" "str_strip u = [] \<or> last_user_message s = Some (str_strip u)"
  shows "\<exists>n. script_grok w (Submit u) s = (page_grok w s)\<lparr>notices := n\<rparr>"
  using assms by (auto simp: script_grok_def on_submit_def Let_def)

subsection \<open>The exit branch and the other branches\<close>

lemma app_exit_step:
  assumes "any_keyword_in exit_keywords (str_lower u)"
  shows "\<not> conversation_active (process_user_input w u s)
     \<and> stage (process_user_input w u s) = Farewell
     \<and> candidate_data (process_user_input w u s) = candidate_data s
     \<and> tech_questions_asked (process_user_input w u s) = tech_questions_asked s
     \<and> messages (process_user_input w u s) = messages s @
          [\<lparr>role = Assistant, content = fst (call_llm w ''Generate farewell message'' (SYSTEM_PROMPTS T_farewell))\<rparr>]
     \<and> disk (process_user_input w u s) = files_after_save w (candidate_data s) (disk s)"
  using assms by (simp add: process_exit exit_keywords_strip farewell_disk)

lemma app_plain_step:
  assumes "\<not> any_keyword_in exit_keywords (str_lower u)"
    and "stage s = Technical_questions \<longrightarrow> tech_questions_asked s + 1 < 5"
  shows "conversation_active (process_user_input w u s) = conversation_active s
     \<and> disk (process_user_input w u s) = disk s"
  using assms
  by (cases "stage s") (simp_all add: process_route exit_keywords_strip technical_active technical_disk)

lemma grok_exit_step:
  assumes "inv_grok s" "conversation_active s" "any_keyword_in exit_words (str_lower u)"
  shows "\<not> conversation_active (script_grok w (Submit u) s)
     \<and> candidate_data (script_grok w (Submit u) s) = candidate_data s
     \<and> tech_questions_asked (script_grok w (Submit u) s) = tech_questions_asked s
     \<and> messages (script_grok w (Submit u) s) = messages (top_of_script w s) @
          [\<lparr>role = User, content = Some (str_strip u)\<rparr>,
           \<lparr>role = Assistant, content = fst (call_groq_api w ''Generate farewell'' (SYSTEM_PROMPTS_grok T_farewell))\<rparr>,
           \<lparr>role = Assistant, content = Some (save_message w (candidate_data s))\<rparr>]
     \<and> disk (script_grok w (Submit u) s) = files_after_save_grok w (candidate_data s) (disk s)"
  using assms
  by (simp add: grok_submit_exit exit_messages exit_disk)

lemma grok_plain_step:
  assumes "inv_grok s" "conversation_active s" "\<not> any_keyword_in exit_words (str_lower u)"
    and "stage s = Technical_questions \<longrightarrow> tech_questions_asked s + 1 < 5"
  shows "conversation_active (script_grok w (Submit u) s) \<and> disk (script_grok w (Submit u) s) = disk s"
proof (cases "str_strip u = [] \<or> last_user_message s = Some (str_strip u)")
  case True
  then obtain n where "script_grok w (Submit u) s = (page_grok w s)\<lparr>notices := n\<rparr>"
    using grok_submit_ignored [OF assms(2), of u w] by blast
  then show ?thesis using assms(2) by simp
next
  case False
  let ?s2 = "append_message User (Some (str_strip u)) ((page_grok w s)\<lparr>last_user_message := Some (str_strip u)\<rparr>)"
  obtain n where e: "script_grok w (Submit u) s = (route_by_stage w (str_strip u) ?s2)\<lparr>notices := n\<rparr>"
    using grok_submit_route [OF assms(1,2), of u w] assms(3) False by blast
  have st: "stage ?s2 = Collect_info \<or> stage ?s2 = Technical_questions"
    using inv_grok_top [OF assms(1), of w] top_not_greeting [OF assms(1), of w]
    by (cases "stage (top_of_script w s)") (simp_all add: inv_grok_def)
  have t: "stage ?s2 = Technical_questions \<Longrightarrow> tech_questions_asked ?s2 + 1 < 5"
    using assms(1,4) by (cases "stage s = Greeting") (auto simp: top_stage inv_grok_def)
  show ?thesis
    using e st t assms(2)
    by (auto simp: route_by_stage_def technical_step_active technical_step_disk)
qed


lemma app_plain_answer:
  assumes "\<not> any_keyword_in exit_keywords (str_lower u)" "stage s = Technical_questions"
  shows "technical_answers (candidate_data (process_user_input w u s)) =
     technical_answers (candidate_data s) @
       [\<lparr>question_number = tech_questions_asked s + 1, answer = u, timestamp = now_iso w\<rparr>]"
  using assms by (simp add: process_route exit_keywords_strip)

lemma grok_plain_answer:
  assumes "inv_grok s" "conversation_active s" "stage s = Technical_questions"
    and "str_strip u \<noteq> []" "last_user_message s \<noteq> Some (str_strip u)"
    and "\<not> any_keyword_in exit_words (str_lower u)"
  shows "technical_answers (candidate_data (script_grok w (Submit u) s)) =
     technical_answers (candidate_data s) @
       [\<lparr>question_number = tech_questions_asked s + 1, answer = str_strip u, timestamp = now_iso w\<rparr>]"
proof -
  obtain n where "script_grok w (Submit u) s =
      (route_by_stage w (str_strip u)
         (append_message User (Some (str_strip u)) ((page_grok w s)\<lparr>last_user_message := Some (str_strip u)\<rparr>)))
        \<lparr>notices := n\<rparr>"
    using grok_submit_route [OF assms(1,2,4,5,6), of w] by blast
  then show ?thesis
    using assms(2,3) by (simp add: route_by_stage_def page_grok_active)
qed



lemma two_fields_active: "conversation_active (run two_fields init_state)"
  by (simp add: two_fields_def eval_app eval_strings)

lemma goodbye_facts:
  "any_keyword_in exit_keywords (str_lower ''Goodbye!'')"
  "any_keyword_in exit_words (str_lower ''Goodbye!'')"
  by (simp_all add: eval_strings)

lemma world0_fields [simp]:
  "makedirs_error world0 = None"
  "open_error world0 path = None"
  "dump_error world0 = None"
  "write_failure world0 path = None"
  "save_failure world0 d = None"
  "now_stamp world0 = ''20240501_100000''"
  "now_iso world0 = ''2024-05-01T10:00:00''"
  by (simp_all add: world0_def write_failure_def save_failure_def)

subsection \<open>The technical answers\<close>









subsection \<open>The duplicate guard\<close>

lemma grok_duplicate:
  assumes "inv_grok s" "last_user_message s = Some (str_strip u)"
  shows "\<exists>n. script_grok w (Submit u) s = s\<lparr>notices := n\<rparr>"
proof -
  have g: "stage s \<noteq> Greeting"
    using assms by (auto simp: inv_grok_def)
  show ?thesis
  proof (cases "conversation_active s")
    case True
    then show ?thesis
      using grok_submit_ignored [of s u w] assms(2) page_grok_idle [OF g, of w] by auto
  next
    case False
    then have "script_grok w (Submit u) s = page_grok w s"
      by (simp add: script_grok_def)
    then show ?thesis
      using page_grok_idle [OF g, of w] by auto
  qed
qed

lemma one_field_facts:
  "last_user_message (run_grok [(world0, Submit ''Ada Lovelace'')] init_grok) = Some ''Ada Lovelace''"
  "str_strip ''  Ada Lovelace '' = ''Ada Lovelace''"
  "filled (candidate_data (run_grok [(world0, Submit ''Ada Lovelace'')] init_grok)) = [Name]"
  "length (messages (run_grok [(world0, Submit ''Ada Lovelace'')] init_grok)) = 4"
  by (simp_all add: filled_def eval_grok eval_strings)

subsection \<open>What is stored for a field\<close>

lemma digit_runs_started:
  "cur \<noteq> [] \<Longrightarrow> digit_runs cur s \<noteq> [] \<and> hd (digit_runs cur s) = cur @ takeWhile is_digit s"
  by (induction s arbitrary: cur) auto

lemma digit_runs_fresh:
  "(digit_runs [] s \<noteq> []) = list_ex is_digit s
   \<and> (list_ex is_digit s \<longrightarrow> hd (digit_runs [] s) = first_number s)"
proof (induction s)
  case Nil
  then show ?case by simp
next
  case (Cons c s)
  show ?case
  proof (cases "is_digit c")
    case True
    then show ?thesis
      using digit_runs_started [of "[c]" s] by (simp add: first_number_def)
  next
    case False
    then show ?thesis
      using Cons by (simp add: first_number_def)
  qed
qed

lemma extract_info_eq:
  "extract_info_from_response u field =
     (if field = Experience \<and> list_ex is_digit (str_strip u)
      then first_number (str_strip u) @ '' years''
      else str_strip u)"
  using digit_runs_fresh [of "str_strip u"]
  by (auto simp: extract_info_from_response_def findall_digits_def Let_def)

lemma dropWhile_id: "xs = [] \<or> \<not> P (hd xs) \<Longrightarrow> dropWhile P xs = xs"
  by (cases xs) auto

lemma prefix_hd: "prefix r t \<Longrightarrow> r \<noteq> [] \<Longrightarrow> hd r = hd t \<and> t \<noteq> []"
  by (auto simp: prefix_def)

lemma str_strip_idem: "str_strip (str_strip s) = str_strip s"
proof -
  let ?t = "dropWhile is_space s"
  let ?r = "rev (dropWhile is_space (rev ?t))"
  have t: "?t = [] \<or> \<not> is_space (hd ?t)"
    using hd_dropWhile [of is_space s] by blast
  have p: "prefix ?r ?t"
    using suffix_dropWhile [of is_space "rev ?t"] by (simp add: suffix_to_prefix)
  have h: "?r = [] \<or> \<not> is_space (hd ?r)"
    using prefix_hd [OF p] t by metis
  have l: "rev ?r = [] \<or> \<not> is_space (hd (rev ?r))"
    using hd_dropWhile [of is_space "rev ?t"] by auto
  have "dropWhile is_space ?r = ?r"
    using h by (rule dropWhile_id)
  moreover have "dropWhile is_space (rev ?r) = rev ?r"
    using l by (rule dropWhile_id)
  ultimately show ?thesis
    by (simp add: str_strip_def)
qed

lemma app_stored:
  assumes "stage s = Collect_info" "get_missing_info s = Some field"
    and "\<not> any_keyword_in exit_keywords (str_lower u)"
  shows "info (candidate_data (process_user_input w u s)) =
     (info (candidate_data s))
       (field := Some (if field = Experience \<and> list_ex is_digit (str_strip u)
                       then first_number (str_strip u) @ '' years''
                       else str_strip u))"
  using assms by (simp add: process_route exit_keywords_strip collect_info extract_info_eq)

lemma grok_stored:
  assumes "inv_grok s" "conversation_active s" "stage s = Collect_info"
    and "str_strip u \<noteq> []" "last_user_message s \<noteq> Some (str_strip u)"
    and "\<not> any_keyword_in exit_words (str_lower u)"
  shows "info (candidate_data (script_grok w (Submit u) s)) =
     (info (candidate_data s))(FIELD_ORDER ! current_field_index s := Some (str_strip u))"
proof -
  have "current_field_index s < 7"
    using assms(1,3) by (simp add: inv_grok_def)
  moreover obtain n where "script_grok w (Submit u) s =
      (route_by_stage w (str_strip u)
         (append_message User (Some (str_strip u)) ((page_grok w s)\<lparr>last_user_message := Some (str_strip u)\<rparr>)))
        \<lparr>notices := n\<rparr>"
    using grok_submit_route [OF assms(1,2,4,5,6), of w] by blast
  ultimately show ?thesis
    using assms(2,3) by (simp add: route_by_stage_def page_grok_active info_step_info str_strip_idem)
qed

lemma three_fields_facts:
  "stage (run three_fields init_state) = Collect_info"
  "get_missing_info (run three_fields init_state) = Some Experience"
  "stage (run_grok three_fields_grok init_grok) = Collect_info"
  "conversation_active (run_grok three_fields_grok init_grok)"
  "current_field_index (run_grok three_fields_grok init_grok) = 3"
  "last_user_message (run_grok three_fields_grok init_grok) = Some ''555 0100''"
  by (simp_all add: three_fields_def three_fields_grok_def eval_app eval_grok eval_strings)

lemma about_five_facts:
  "\<not> any_keyword_in exit_keywords (str_lower ''about 5'')"
  "\<not> any_keyword_in exit_words (str_lower ''about 5'')"
  "str_strip ''about 5'' = ''about 5''"
  "list_ex is_digit ''about 5''"
  "first_number ''about 5'' = ''5''"
  by (simp_all add: first_number_def eval_strings)

lemma no_email_facts:
  "get_missing_info (run [(world0, Submit ''hello''), (world0, Submit ''Ada Lovelace'')] init_state) = Some Email"
  "stage (run [(world0, Submit ''hello''), (world0, Submit ''Ada Lovelace'')] init_state) = Collect_info"
  "\<not> any_keyword_in exit_keywords (str_lower '' not an email '')"
  "str_strip '' not an email '' = ''not an email''"
  by (simp_all add: eval_app eval_strings)

subsection \<open>Writing the record\<close>

lemma writing_fields [simp]:
  "secrets_get (writing m oe de w) = secrets_get w"
  "getenv (writing m oe de w) = getenv w"
  "service (writing m oe de w) = service w"
  "now_iso (writing m oe de w) = now_iso w"
  "now_stamp (writing m oe de w) = now_stamp w"
  "import_error (writing m oe de w) = import_error w"
  "makedirs_error (writing m oe de w) = m"
  "open_error (writing m oe de w) = oe"
  "dump_error (writing m oe de w) = de"
  by (simp_all add: writing_def)

lemma api_key_writing [simp]: "api_key (writing m oe de w) = api_key w"
  by (simp add: api_key_def split: sum.split option.split)

lemma call_llm_writing [simp]: "call_llm (writing m oe de w) p sp = call_llm w p sp"
  by (simp add: call_llm_def Let_def split: option.split sum.split reply.split)

lemma ask_llm_writing [simp]: "ask_llm (writing m oe de w) p sp s = ask_llm w p sp s"
  by (simp add: ask_llm_def)








lemma files_after_save_works:
  "write_failure w (''candidate_'' @ now_stamp w @ ''.json'') = None \<Longrightarrow>
   files_after_save w d files = files(''candidate_'' @ now_stamp w @ ''.json'' \<mapsto> json_dump d)"
  by (simp add: files_after_save_def write_file_works)



lemma call_groq_writing [simp]: "call_groq_api (writing m oe de w) p sp = call_groq_api w p sp"
  by (simp add: call_groq_api_def Let_def split: option.split sum.split reply.split)

lemma ask_groq_writing [simp]: "ask_groq (writing m oe de w) p sp s = ask_groq w p sp s"
  by (simp add: ask_groq_def)

lemma ask_next_writing [simp]:
  "ask_next_info_field (writing m oe de w) b s = ask_next_info_field w b s"
  by (simp add: ask_next_info_field_def generate_technical_questions_grok_def)

lemma top_writing [simp]: "top_of_script (writing m oe de w) s = top_of_script w s"
  by (simp add: top_of_script_def handle_greeting_stage_def)

lemma page_grok_writing [simp]: "page_grok (writing m oe de w) s = page_grok w s"
  by (simp add: page_grok_def)

lemma info_step_writing [simp]:
  "process_user_input_info (writing m oe de w) u s = process_user_input_info w u s"
  by (simp add: process_user_input_info_def Let_def)






lemma grok_core_notices [simp]: "grok_core (s\<lparr>notices := n\<rparr>) = grok_core s"
  by (simp add: grok_core_def)





lemmas eval_json = json_dump_def json_optional_def json_string_def json_escape_def json_answers_def
  json_answer_def FIELD_ORDER_def nl_def dq_def hex_char_def digit_char_def str_of_nat.simps

lemma one_answer_json:
  "json_answers [\<lparr>question_number = 12, answer = ''a '' @ dq @ ''b'' @ dq @ nl,
                   timestamp = ''2024-05-01T10:00:00''\<rparr>] = one_answer_json"
  by (simp add: one_answer_json_def eval_json)




section \<open>The claims\<close>

text \<open>
  Claim C1. Along any stretch of a session without a restart, from any state of either
  script, the stage never moves back in the order greeting, collect_info,
  technical_questions, farewell; and from a state whose stage is technical_questions
  or farewell on, no input changes any of the seven information fields.
\<close>

theorem stage_order:
  assumes "no_restart evs"
  shows "stage_rank (stage s) \<le> stage_rank (stage (run evs s))
     \<and> (2 \<le> stage_rank (stage s) \<longrightarrow> info (candidate_data (run evs s)) = info (candidate_data s))
     \<and> stage_rank (stage g) \<le> stage_rank (stage (run_grok evs g))
     \<and> (2 \<le> stage_rank (stage g) \<longrightarrow> info (candidate_data (run_grok evs g)) = info (candidate_data g))"
  using assms
  by (simp add: run_stage_rank run_info_frozen run_grok_stage_rank run_grok_info_frozen)

theorem stage_order_witness:
  "no_restart [(world0, Submit ''Dictionaries and sets'')]
   \<and> stage (run collected init_state) = Technical_questions
   \<and> stage (run_grok collected_grok init_grok) = Technical_questions
   \<and> stage_rank (stage (run collected init_state))
       \<le> stage_rank (stage (run [(world0, Submit ''Dictionaries and sets'')] (run collected init_state)))
   \<and> info (candidate_data (run [(world0, Submit ''Dictionaries and sets'')] (run collected init_state)))
       = info (candidate_data (run collected init_state))
   \<and> stage_rank (stage (run_grok collected_grok init_grok))
       \<le> stage_rank (stage (run_grok [(world0, Submit ''Dictionaries and sets'')] (run_grok collected_grok init_grok)))
   \<and> info (candidate_data (run_grok [(world0, Submit ''Dictionaries and sets'')] (run_grok collected_grok init_grok)))
       = info (candidate_data (run_grok collected_grok init_grok))"
proof -
  have n: "no_restart [(world0, Submit ''Dictionaries and sets'')]"
    by (simp add: no_restart_def)
  show ?thesis
    using stage_order [OF n, of "run collected init_state" "run_grok collected_grok init_grok"]
      n collected_stage collected_grok_stage
    by simp
qed

text \<open>
  Claim C2. In every state that either script reaches from its initial state, by any
  events (restarts included), the counter of technical questions equals the number of
  stored answers, their question numbers are 1, 2, 3, ... in order, and the counter is
  at most 5.
\<close>

theorem answers_counter:
  "tech_questions_asked (run evs init_state) = length (technical_answers (candidate_data (run evs init_state)))
   \<and> map question_number (technical_answers (candidate_data (run evs init_state)))
       = [1..<Suc (tech_questions_asked (run evs init_state))]
   \<and> tech_questions_asked (run evs init_state) \<le> 5
   \<and> tech_questions_asked (run_grok evs init_grok)
       = length (technical_answers (candidate_data (run_grok evs init_grok)))
   \<and> map question_number (technical_answers (candidate_data (run_grok evs init_grok)))
       = [1..<Suc (tech_questions_asked (run_grok evs init_grok))]
   \<and> tech_questions_asked (run_grok evs init_grok) \<le> 5"
  using inv_app_reachable [of evs] inv_grok_reachable [of evs]
  by (simp add: inv_app_def inv_grok_def answers_ok_def)

text \<open>
  Claim C3. In every reachable state the fields that hold a value are an initial segment
  of the declared order name, email, phone, experience, position, location, tech_stack;
  while fields are collected, the last prompt sent to the collaborator asks for the
  first field not yet filled, and the next accepted input fills exactly that field; and
  without a restart a field that holds a value keeps it, whatever the later inputs.
\<close>

theorem fields_in_order:
  assumes "no_restart evs"
  shows "prefix (filled (candidate_data (run evs0 init_state))) FIELD_ORDER
     \<and> (info (candidate_data s) field = Some text \<longrightarrow> info (candidate_data (run evs s)) field = Some text)
     \<and> (stage (run evs0 init_state) = Collect_info \<longrightarrow>
           get_missing_info (run evs0 init_state)
             = Some (FIELD_ORDER ! length (filled (candidate_data (run evs0 init_state))))
           \<and> asks_for (FIELD_ORDER ! length (filled (candidate_data (run evs0 init_state))))
                (fst (last (llm_calls (run evs0 init_state))))
           \<and> (\<not> any_keyword_in exit_keywords (str_lower u) \<longrightarrow>
                 filled (candidate_data (process_user_input w u (run evs0 init_state)))
                   = filled (candidate_data (run evs0 init_state))
                     @ [FIELD_ORDER ! length (filled (candidate_data (run evs0 init_state)))]))
     \<and> prefix (filled (candidate_data (run_grok evs0 init_grok))) FIELD_ORDER
     \<and> (info (candidate_data (run_grok evs0 init_grok)) field = Some text \<longrightarrow>
           info (candidate_data (run_grok evs (run_grok evs0 init_grok))) field = Some text)
     \<and> (conversation_active (run_grok evs0 init_grok) \<and> stage (run_grok evs0 init_grok) = Collect_info \<longrightarrow>
           current_field_index (run_grok evs0 init_grok)
             = length (filled (candidate_data (run_grok evs0 init_grok)))
           \<and> asks_for_grok (FIELD_ORDER ! length (filled (candidate_data (run_grok evs0 init_grok))))
                (fst (last (llm_calls (run_grok evs0 init_grok))))
           \<and> (str_strip u \<noteq> [] \<and> last_user_message (run_grok evs0 init_grok) \<noteq> Some (str_strip u)
                \<and> \<not> any_keyword_in exit_words (str_lower u) \<longrightarrow>
                 filled (candidate_data (script_grok w (Submit u) (run_grok evs0 init_grok)))
                   = filled (candidate_data (run_grok evs0 init_grok))
                     @ [FIELD_ORDER ! length (filled (candidate_data (run_grok evs0 init_grok)))]))"
proof -
  let ?S = "run evs0 init_state"
  let ?G = "run_grok evs0 init_grok"
  have iS: "inv_app ?S" by (rule inv_app_reachable)
  have iG: "inv_grok ?G" by (rule inv_grok_reachable)
  have kG: "filled_upto (current_field_index ?G) (candidate_data ?G)" "current_field_index ?G \<le> 7"
    using iG by (simp_all add: inv_grok_def)
  have a1: "prefix (filled (candidate_data ?S)) FIELD_ORDER"
    using iS by (auto simp: inv_app_def filled_upto_prefix)
  have a2: "info (candidate_data s) field = Some text \<longrightarrow> info (candidate_data (run evs s)) field = Some text"
    using assms by (simp add: run_info_kept)
  have a3: "stage ?S = Collect_info \<longrightarrow>
      get_missing_info ?S = Some (FIELD_ORDER ! length (filled (candidate_data ?S)))
      \<and> asks_for (FIELD_ORDER ! length (filled (candidate_data ?S))) (fst (last (llm_calls ?S)))
      \<and> (\<not> any_keyword_in exit_keywords (str_lower u) \<longrightarrow>
            filled (candidate_data (process_user_input w u ?S))
              = filled (candidate_data ?S) @ [FIELD_ORDER ! length (filled (candidate_data ?S))])"
    using app_collect_asks [OF iS] app_collect_fills [OF iS, of u w] by simp
  have g1: "prefix (filled (candidate_data ?G)) FIELD_ORDER"
    using kG by (simp add: filled_upto_prefix)
  have g2: "info (candidate_data ?G) field = Some text \<longrightarrow>
      info (candidate_data (run_grok evs ?G)) field = Some text"
    using assms iG by (simp add: run_grok_info_kept)
  have l: "length (filled (candidate_data ?G)) = current_field_index ?G"
    using kG by (simp add: filled_upto_length)
  have g3: "conversation_active ?G \<and> stage ?G = Collect_info \<longrightarrow>
      current_field_index ?G = length (filled (candidate_data ?G))
      \<and> asks_for_grok (FIELD_ORDER ! length (filled (candidate_data ?G))) (fst (last (llm_calls ?G)))
      \<and> (str_strip u \<noteq> [] \<and> last_user_message ?G \<noteq> Some (str_strip u)
           \<and> \<not> any_keyword_in exit_words (str_lower u) \<longrightarrow>
            filled (candidate_data (script_grok w (Submit u) ?G))
              = filled (candidate_data ?G) @ [FIELD_ORDER ! length (filled (candidate_data ?G))])"
    using iG l grok_collect_fills [OF iG, of u w] by (simp add: inv_grok_def)
  show ?thesis
    using a1 a2 a3 g1 g2 g3 by blast
qed

theorem fields_in_order_witness:
  "no_restart [(world0, Submit ''555 0100'')]
   \<and> stage (run two_fields init_state) = Collect_info
   \<and> filled (candidate_data (run two_fields init_state)) = [Name, Email]
   \<and> get_missing_info (run two_fields init_state) = Some Phone
   \<and> asks_for Phone (fst (last (llm_calls (run two_fields init_state))))
   \<and> filled (candidate_data (process_user_input world0 ''555 0100'' (run two_fields init_state))) = [Name, Email, Phone]
   \<and> info (candidate_data (run [(world0, Submit ''555 0100'')] (run two_fields init_state))) Name = Some ''Ada Lovelace''
   \<and> stage (run_grok two_fields_grok init_grok) = Collect_info
   \<and> filled (candidate_data (run_grok two_fields_grok init_grok)) = [Name, Email]
   \<and> current_field_index (run_grok two_fields_grok init_grok) = 2
   \<and> asks_for_grok Phone (fst (last (llm_calls (run_grok two_fields_grok init_grok))))
   \<and> filled (candidate_data (script_grok world0 (Submit ''555 0100'') (run_grok two_fields_grok init_grok)))
       = [Name, Email, Phone]
   \<and> info (candidate_data (run_grok [(world0, Submit ''555 0100'')] (run_grok two_fields_grok init_grok))) Name
       = Some ''Ada Lovelace''"
proof -
  have n: "no_restart [(world0, Submit ''555 0100'')]"
    by (simp add: no_restart_def)
  show ?thesis
    using fields_in_order [OF n, of two_fields "run two_fields init_state" Name "''Ada Lovelace''"
        "''555 0100''" world0]
      fields_in_order [OF n, of two_fields_grok "run two_fields init_state" Name "''Ada Lovelace''"
        "''555 0100''" world0]
      n two_fields_facts two_fields_grok_facts phone_facts
    by (simp add: FIELD_ORDER_def)
qed

text \<open>
  Claim C4, as amended. Whenever a submission is processed (\<^verbatim>\<open>app.py\<close>: in any state;
  \<^verbatim>\<open>app_grok.py\<close>: in a reachable state with the conversation active), if the lowercased
  input contains one of the script's own exit keywords, which are bye, goodbye, exit,
  quit, end, stop in \<^verbatim>\<open>app_grok.py\<close> and these together with "no thanks" and
  "that's all" in \<^verbatim>\<open>app.py\<close>, then the farewell message is appended, the record is
  saved (the files are those that \<^verbatim>\<open>save_candidate_data\<close> leaves, also when it fails),
  the conversation is deactivated, and the record and the counter are left as they
  were. An input with none of the script's keywords
  does not take this branch: a technical answer is stored as an answer, and unless it is
  the fifth one the conversation stays active and nothing is written.
\<close>

theorem exit_shortcut:
  "(any_keyword_in exit_keywords (str_lower u) \<longrightarrow>
      \<not> conversation_active (process_user_input w u s)
      \<and> stage (process_user_input w u s) = Farewell
      \<and> candidate_data (process_user_input w u s) = candidate_data s
      \<and> tech_questions_asked (process_user_input w u s) = tech_questions_asked s
      \<and> messages (process_user_input w u s) = messages s @
           [\<lparr>role = Assistant, content = fst (call_llm w ''Generate farewell message'' (SYSTEM_PROMPTS T_farewell))\<rparr>]
      \<and> disk (process_user_input w u s) = files_after_save w (candidate_data s) (disk s))
   \<and> (\<not> any_keyword_in exit_keywords (str_lower u) \<longrightarrow>
         (stage s = Technical_questions \<longrightarrow>
            technical_answers (candidate_data (process_user_input w u s)) =
              technical_answers (candidate_data s) @
                [\<lparr>question_number = tech_questions_asked s + 1, answer = u, timestamp = now_iso w\<rparr>])
         \<and> ((stage s = Technical_questions \<longrightarrow> tech_questions_asked s + 1 < 5) \<longrightarrow>
               conversation_active (process_user_input w u s) = conversation_active s
               \<and> disk (process_user_input w u s) = disk s))
   \<and> (conversation_active (run_grok evs init_grok) \<and> any_keyword_in exit_words (str_lower u) \<longrightarrow>
         \<not> conversation_active (script_grok w (Submit u) (run_grok evs init_grok))
         \<and> stage (script_grok w (Submit u) (run_grok evs init_grok)) = stage (top_of_script w (run_grok evs init_grok))
         \<and> candidate_data (script_grok w (Submit u) (run_grok evs init_grok)) = candidate_data (run_grok evs init_grok)
         \<and> tech_questions_asked (script_grok w (Submit u) (run_grok evs init_grok))
             = tech_questions_asked (run_grok evs init_grok)
         \<and> messages (script_grok w (Submit u) (run_grok evs init_grok)) =
             messages (top_of_script w (run_grok evs init_grok)) @
               [\<lparr>role = User, content = Some (str_strip u)\<rparr>,
                \<lparr>role = Assistant,
                 content = fst (call_groq_api w ''Generate farewell'' (SYSTEM_PROMPTS_grok T_farewell))\<rparr>,
                \<lparr>role = Assistant, content = Some (save_message w (candidate_data (run_grok evs init_grok)))\<rparr>]
         \<and> disk (script_grok w (Submit u) (run_grok evs init_grok)) =
             files_after_save_grok w (candidate_data (run_grok evs init_grok)) (disk (run_grok evs init_grok)))
   \<and> (conversation_active (run_grok evs init_grok) \<and> \<not> any_keyword_in exit_words (str_lower u) \<longrightarrow>
         (stage (run_grok evs init_grok) = Technical_questions \<and> str_strip u \<noteq> []
            \<and> last_user_message (run_grok evs init_grok) \<noteq> Some (str_strip u) \<longrightarrow>
            technical_answers (candidate_data (script_grok w (Submit u) (run_grok evs init_grok))) =
              technical_answers (candidate_data (run_grok evs init_grok)) @
                [\<lparr>question_number = tech_questions_asked (run_grok evs init_grok) + 1,
                  answer = str_strip u, timestamp = now_iso w\<rparr>])
         \<and> ((stage (run_grok evs init_grok) = Technical_questions \<longrightarrow>
                tech_questions_asked (run_grok evs init_grok) + 1 < 5) \<longrightarrow>
               conversation_active (script_grok w (Submit u) (run_grok evs init_grok))
               \<and> disk (script_grok w (Submit u) (run_grok evs init_grok)) = disk (run_grok evs init_grok)))"
proof -
  let ?G = "run_grok evs init_grok"
  have iG: "inv_grok ?G" by (rule inv_grok_reachable)
  have st: "conversation_active ?G \<Longrightarrow> any_keyword_in exit_words (str_lower u) \<Longrightarrow>
      stage (script_grok w (Submit u) ?G) = stage (top_of_script w ?G)"
    using iG by (simp add: grok_submit_exit)
  show ?thesis
    using app_exit_step [of u w s] app_plain_step [of u s w] app_plain_answer [of u s w]
      grok_exit_step [OF iG, of u w] grok_plain_step [OF iG, of u w] grok_plain_answer [OF iG, of u w] st
    by blast
qed

theorem exit_shortcut_witness:
  "any_keyword_in exit_keywords (str_lower ''Goodbye!'')
   \<and> \<not> conversation_active (process_user_input world0 ''Goodbye!'' (run two_fields init_state))
   \<and> stage (process_user_input world0 ''Goodbye!'' (run two_fields init_state)) = Farewell
   \<and> disk (process_user_input world0 ''Goodbye!'' (run two_fields init_state)) ''candidate_20240501_100000.json''
       = Some (json_dump (candidate_data (run two_fields init_state)))
   \<and> any_keyword_in exit_words (str_lower ''Goodbye!'')
   \<and> conversation_active (run_grok two_fields_grok init_grok)
   \<and> \<not> conversation_active (script_grok world0 (Submit ''Goodbye!'') (run_grok two_fields_grok init_grok))
   \<and> \<not> any_keyword_in exit_keywords (str_lower ''555 0100'')
   \<and> conversation_active (process_user_input world0 ''555 0100'' (run two_fields init_state))
   \<and> \<not> any_keyword_in exit_words (str_lower ''555 0100'')
   \<and> conversation_active (script_grok world0 (Submit ''555 0100'') (run_grok two_fields_grok init_grok))"
  using exit_shortcut [of "''Goodbye!''" world0 "run two_fields init_state" two_fields_grok]
    exit_shortcut [of "''555 0100''" world0 "run two_fields init_state" two_fields_grok]
    goodbye_facts phone_facts two_fields_facts two_fields_grok_facts two_fields_active
  by (simp add: files_after_save_works)

text \<open>The claim as stated fails on \<^verbatim>\<open>app.py\<close>: "No thanks" contains none of the six
  keywords and ends the conversation in the middle of the collection.\<close>

theorem exit_shortcut_counterexample:
  "\<not> any_keyword_in [''bye'', ''goodbye'', ''exit'', ''quit'', ''end'', ''stop''] (str_lower ''No thanks'')
   \<and> stage (run two_fields init_state) = Collect_info
   \<and> conversation_active (run two_fields init_state)
   \<and> \<not> conversation_active (run (two_fields @ [(world0, Submit ''No thanks'')]) init_state)
   \<and> stage (run (two_fields @ [(world0, Submit ''No thanks'')]) init_state) = Farewell
   \<and> info (candidate_data (run (two_fields @ [(world0, Submit ''No thanks'')]) init_state)) Phone = None
   \<and> disk (run (two_fields @ [(world0, Submit ''No thanks'')]) init_state) ''candidate_20240501_100000.json''
       \<noteq> None"
  by (simp add: two_fields_def eval_app eval_strings)





text \<open>
  Claim C8, as amended: the claim holds of \<^verbatim>\<open>app_grok.py\<close>, the script with the duplicate
  guard. In every state that \<^verbatim>\<open>app_grok.py\<close> reaches, the remembered last input is the
  text of the last user message of the transcript; and a submission whose trimmed text
  equals it is ignored: no key of the session state changes (no message, no field, no
  answer, stage and counters as they were), nothing is written and the collaborator is
  not called. Only a notice is shown.
\<close>

theorem duplicate_ignored:
  "last_user_message (run_grok evs init_grok) = last_user_text (messages (run_grok evs init_grok))
   \<and> (last_user_message (run_grok evs init_grok) = Some (str_strip u) \<longrightarrow>
         grok_session (script_grok w (Submit u) (run_grok evs init_grok)) = grok_session (run_grok evs init_grok)
         \<and> disk (script_grok w (Submit u) (run_grok evs init_grok)) = disk (run_grok evs init_grok)
         \<and> llm_calls (script_grok w (Submit u) (run_grok evs init_grok)) = llm_calls (run_grok evs init_grok))"
proof -
  let ?G = "run_grok evs init_grok"
  have iG: "inv_grok ?G" by (rule inv_grok_reachable)
  have a: "last_user_message ?G = last_user_text (messages ?G)"
    using iG by (simp add: inv_grok_def)
  have b: "grok_session (script_grok w (Submit u) ?G) = grok_session ?G
      \<and> disk (script_grok w (Submit u) ?G) = disk ?G
      \<and> llm_calls (script_grok w (Submit u) ?G) = llm_calls ?G"
    if h: "last_user_message ?G = Some (str_strip u)"
  proof -
    obtain n where "script_grok w (Submit u) ?G = ?G\<lparr>notices := n\<rparr>"
      using grok_duplicate [OF iG h, of w] by blast
    then show ?thesis by (simp add: grok_session_def)
  qed
  show ?thesis
    using a b by blast
qed

theorem duplicate_ignored_witness:
  "last_user_message (run_grok [(world0, Submit ''Ada Lovelace'')] init_grok) = Some (str_strip ''  Ada Lovelace '')
   \<and> filled (candidate_data (run_grok [(world0, Submit ''Ada Lovelace''), (world0, Submit ''  Ada Lovelace '')] init_grok))
       = [Name]
   \<and> length (messages (run_grok [(world0, Submit ''Ada Lovelace''), (world0, Submit ''  Ada Lovelace '')] init_grok)) = 4
   \<and> grok_session (run_grok [(world0, Submit ''Ada Lovelace''), (world0, Submit ''  Ada Lovelace '')] init_grok)
       = grok_session (run_grok [(world0, Submit ''Ada Lovelace'')] init_grok)"
proof -
  have e: "run_grok [(world0, Submit ''Ada Lovelace''), (world0, Submit ''  Ada Lovelace '')] init_grok
      = script_grok world0 (Submit ''  Ada Lovelace '') (run_grok [(world0, Submit ''Ada Lovelace'')] init_grok)"
    by simp
  have s: "grok_session (run_grok [(world0, Submit ''Ada Lovelace''), (world0, Submit ''  Ada Lovelace '')] init_grok)
      = grok_session (run_grok [(world0, Submit ''Ada Lovelace'')] init_grok)"
    unfolding e
    using duplicate_ignored [of "[(world0, Submit ''Ada Lovelace'')]" "''  Ada Lovelace ''" world0] one_field_facts(1,2)
    by simp
  then show ?thesis
    using one_field_facts by (simp add: grok_session_def del: run_grok.simps)
qed

text \<open>The claim as stated fails on \<^verbatim>\<open>app.py\<close>, which has no duplicate guard: the name
  submitted a second time is appended to the transcript, answered, and stored as the
  email.\<close>

theorem duplicate_ignored_counterexample:
  "length (messages (run [(world0, Submit ''hello''), (world0, Submit ''Ada Lovelace'')] init_state)) = 5
   \<and> last_user_text (messages (run [(world0, Submit ''hello''), (world0, Submit ''Ada Lovelace'')] init_state))
       = Some ''Ada Lovelace''
   \<and> info (candidate_data (run [(world0, Submit ''hello''), (world0, Submit ''Ada Lovelace'')] init_state)) Email
       = None
   \<and> length (messages (run [(world0, Submit ''hello''), (world0, Submit ''Ada Lovelace''),
         (world0, Submit ''Ada Lovelace'')] init_state)) = 7
   \<and> info (candidate_data (run [(world0, Submit ''hello''), (world0, Submit ''Ada Lovelace''),
         (world0, Submit ''Ada Lovelace'')] init_state)) Email = Some ''Ada Lovelace''
   \<and> length (llm_calls (run [(world0, Submit ''hello''), (world0, Submit ''Ada Lovelace''),
         (world0, Submit ''Ada Lovelace'')] init_state))
       = length (llm_calls (run [(world0, Submit ''hello''), (world0, Submit ''Ada Lovelace'')] init_state)) + 1"
  by (simp add: eval_app eval_strings)

text \<open>
  Claim C7, as amended. In the collect_info stage, an accepted input (one with no exit
  keyword, and for \<^verbatim>\<open>app_grok.py\<close> neither blank nor a duplicate) is stored into the next
  unset field as the input with surrounding whitespace trimmed. The one exception is the
  experience field in \<^verbatim>\<open>app.py\<close>: when the trimmed input contains a digit, what is
  stored is its first run of decimal digits followed by " years"; text without a digit
  is stored trimmed as it is. \<^verbatim>\<open>app_grok.py\<close> extracts nothing. No other field is
  changed, and no format of email or phone is checked.
\<close>

theorem stored_value:
  "(stage s = Collect_info \<and> get_missing_info s = Some field
      \<and> \<not> any_keyword_in exit_keywords (str_lower u) \<longrightarrow>
      info (candidate_data (process_user_input w u s)) =
        (info (candidate_data s))
          (field := Some (if field = Experience \<and> list_ex is_digit (str_strip u)
                          then first_number (str_strip u) @ '' years''
                          else str_strip u)))
   \<and> (conversation_active (run_grok evs init_grok) \<and> stage (run_grok evs init_grok) = Collect_info
        \<and> str_strip u \<noteq> [] \<and> last_user_message (run_grok evs init_grok) \<noteq> Some (str_strip u)
        \<and> \<not> any_keyword_in exit_words (str_lower u) \<longrightarrow>
        info (candidate_data (script_grok w (Submit u) (run_grok evs init_grok))) =
          (info (candidate_data (run_grok evs init_grok)))
            (FIELD_ORDER ! current_field_index (run_grok evs init_grok) := Some (str_strip u)))"
  using app_stored [of s "field" u w] grok_stored [OF inv_grok_reachable, of evs u w]
  by blast

theorem stored_value_witness:
  "stage (run three_fields init_state) = Collect_info
   \<and> get_missing_info (run three_fields init_state) = Some Experience
   \<and> \<not> any_keyword_in exit_keywords (str_lower ''about 5'')
   \<and> info (candidate_data (process_user_input world0 ''about 5'' (run three_fields init_state))) Experience
       = Some ''5 years''
   \<and> get_missing_info (run [(world0, Submit ''hello''), (world0, Submit ''Ada Lovelace'')] init_state) = Some Email
   \<and> info (candidate_data (process_user_input world0 '' not an email ''
         (run [(world0, Submit ''hello''), (world0, Submit ''Ada Lovelace'')] init_state))) Email
       = Some ''not an email''
   \<and> conversation_active (run_grok three_fields_grok init_grok)
   \<and> stage (run_grok three_fields_grok init_grok) = Collect_info
   \<and> info (candidate_data (script_grok world0 (Submit ''about 5'') (run_grok three_fields_grok init_grok))) Experience
       = Some ''about 5''"
  using stored_value [of "run three_fields init_state" Experience "''about 5''" world0 three_fields_grok]
    stored_value [of "run [(world0, Submit ''hello''), (world0, Submit ''Ada Lovelace'')] init_state" Email
      "'' not an email ''" world0 three_fields_grok]
    three_fields_facts about_five_facts no_email_facts
  by (simp add: FIELD_ORDER_def)

text \<open>The claim as stated fails on both scripts: for the experience "about 5" the first
  number is 5, while \<^verbatim>\<open>app.py\<close> stores "5 years" and \<^verbatim>\<open>app_grok.py\<close> stores "about 5".\<close>

theorem stored_value_counterexample:
  "first_number ''about 5'' = ''5''
   \<and> info (candidate_data (run (three_fields @ [(world0, Submit ''about 5'')]) init_state)) Experience
       = Some ''5 years''
   \<and> info (candidate_data (run (three_fields @ [(world0, Submit ''about 5'')]) init_state)) Experience
       \<noteq> Some (first_number ''about 5'')
   \<and> info (candidate_data (run_grok (three_fields_grok @ [(world0, Submit ''about 5'')]) init_grok)) Experience
       = Some ''about 5''
   \<and> info (candidate_data (run_grok (three_fields_grok @ [(world0, Submit ''about 5'')]) init_grok)) Experience
       \<noteq> Some (first_number ''about 5'')"
  by (simp add: three_fields_def three_fields_grok_def first_number_def eval_app eval_grok eval_strings)




subsection \<open>The text-generation call\<close>

lemma api_key_world0 [simp]: "api_key world0 = Inr ''gsk-test''"
  by (simp add: api_key_def world0_def)

lemma call_groq_api_posts: "length (snd (call_groq_api w prompt system_prompt)) \<le> 1"
  by (simp add: call_groq_api_def Let_def split: sum.split reply.split)

lemma call_llm_posts: "length (snd (call_llm w prompt system_prompt)) \<le> 1"
  by (simp add: call_llm_def Let_def split: sum.split reply.split option.split)

text \<open>What the two calls do, case by case: every exception path is a branch that returns
  a text, and the content of a reply is returned as it came.\<close>

lemma call_groq_api_cases:
  "(api_key w = Inr [] \<longrightarrow>
      call_groq_api w prompt system_prompt =
        (Some (warning_sign @ '' Add GROQ_API_KEY in environment or Streamlit secrets to enable AI responses.''), []))
   \<and> (\<forall>e. api_key w = Inl e \<longrightarrow>
         call_groq_api w prompt system_prompt = (Some (''An unexpected error occurred: '' @ e), []))
   \<and> (\<forall>key e. api_key w = Inr key \<and> key \<noteq> [] \<and> service w prompt system_prompt 0 = Request_exception e \<longrightarrow>
         fst (call_groq_api w prompt system_prompt) = Some (''Error connecting to Groq API: '' @ e))
   \<and> (\<forall>key e. api_key w = Inr key \<and> key \<noteq> [] \<and> service w prompt system_prompt 0 = Other_exception e \<longrightarrow>
         fst (call_groq_api w prompt system_prompt) = Some (''An unexpected error occurred: '' @ e))
   \<and> (\<forall>key result. api_key w = Inr key \<and> key \<noteq> [] \<and> service w prompt system_prompt 0 = Reply result \<longrightarrow>
         fst (call_groq_api w prompt system_prompt) = result)"
  by (simp add: call_groq_api_def Let_def)

lemma call_llm_cases:
  "(\<forall>e. import_error w = Some e \<longrightarrow> call_llm w prompt system_prompt = (Some (llm_error e), []))
   \<and> (import_error w = None \<and> api_key w = Inr [] \<longrightarrow>
         call_llm w prompt system_prompt =
           (Some (warning_sign @ '' Please configure your API key in the .streamlit/secrets.toml file or environment variables.''), []))
   \<and> (\<forall>e. import_error w = None \<and> api_key w = Inl e \<longrightarrow>
         call_llm w prompt system_prompt = (Some (llm_error e), []))
   \<and> (\<forall>key e. import_error w = None \<and> api_key w = Inr key \<and> key \<noteq> []
                \<and> (service w prompt system_prompt 0 = Request_exception e
                     \<or> service w prompt system_prompt 0 = Other_exception e) \<longrightarrow>
         fst (call_llm w prompt system_prompt) = Some (llm_error e))
   \<and> (\<forall>key result. import_error w = None \<and> api_key w = Inr key \<and> key \<noteq> []
                \<and> service w prompt system_prompt 0 = Reply result \<longrightarrow>
         fst (call_llm w prompt system_prompt) = result)"
  by (auto simp: call_llm_def Let_def)

text \<open>Nothing is retried: the outcome of a second request is never looked at.\<close>

lemma no_retry:
  assumes "api_key v = api_key w" "import_error v = import_error w"
    and "service v prompt system_prompt 0 = service w prompt system_prompt 0"
  shows "call_groq_api v prompt system_prompt = call_groq_api w prompt system_prompt
     \<and> call_llm v prompt system_prompt = call_llm w prompt system_prompt"
  using assms by (simp add: call_groq_api_def call_llm_def Let_def split: option.split sum.split reply.split)

text \<open>
  Claim C5 fails on the code, in the two cases that the functions miss. The content of
  a reply is handed back unchecked: when the service answers with the content
  \<^verbatim>\<open>null\<close>, both \<^verbatim>\<open>call_groq_api\<close> and \<^verbatim>\<open>call_llm\<close> return \<^verbatim>\<open>None\<close>, not a string, and the
  scripts append it to the transcript as a message. And the absent credential gives the
  warning only when a secrets store exists: without one (and with no key in the
  environment) reading the secret raises before the environment is looked at, and what
  comes back is the text of that exception, while with an empty store it is the warning.
\<close>

theorem generation_returns_none:
  "service null_reply ''Greet the candidate for a hiring interview'' (SYSTEM_PROMPTS_grok T_greeting) 0 = Reply None
   \<and> fst (call_groq_api null_reply ''Greet the candidate for a hiring interview'' (SYSTEM_PROMPTS_grok T_greeting))
       = None
   \<and> fst (call_llm null_reply ''Greet the candidate'' (SYSTEM_PROMPTS T_greeting)) = None
   \<and> messages (run_grok [(null_reply, Idle)] init_grok)
       = [\<lparr>role = Assistant, content = None\<rparr>, \<lparr>role = Assistant, content = None\<rparr>]
   \<and> messages (run [(null_reply, Idle)] init_state) = [\<lparr>role = Assistant, content = None\<rparr>]
   \<and> secrets_get no_secrets = Inl ''No secrets files found''
   \<and> getenv no_secrets = None
   \<and> call_groq_api no_secrets ''Greet the candidate for a hiring interview'' (SYSTEM_PROMPTS_grok T_greeting)
       = (Some ''An unexpected error occurred: No secrets files found'', [])
   \<and> call_llm no_secrets ''Greet the candidate'' (SYSTEM_PROMPTS T_greeting)
       = (Some (llm_error ''No secrets files found''), [])
   \<and> secrets_get no_key = Inr None
   \<and> getenv no_key = None
   \<and> call_groq_api no_key ''Greet the candidate for a hiring interview'' (SYSTEM_PROMPTS_grok T_greeting)
       = (Some (warning_sign @ '' Add GROQ_API_KEY in environment or Streamlit secrets to enable AI responses.''), [])"
  by (simp add: null_reply_def no_secrets_def no_key_def eval_grok eval_app)

end
